theory Spec2Isabelle
  imports Main "HOL-Library.Sublist"
begin

section \<open>Strings and values of the host language\<close>

text \<open>
  The plugin is TypeScript. A string is modelled as a \<^typ>\<open>string\<close>: a list of 8-bit
  characters, each standing for the UTF-16 code unit of the same number (so the model
  covers the strings whose code units are below 256). A value of type
  \<^verbatim>\<open>string | null\<close> is a \<^typ>\<open>string option\<close>, \<^term>\<open>None\<close> being \<^verbatim>\<open>null\<close>.
\<close>

subsection \<open>The regular expression of the date resolver\<close>

text \<open>
  Both \<^verbatim>\<open>isDailyNote\<close> and \<^verbatim>\<open>extractDateFromFileName\<close> apply the literal
  \<^verbatim>\<open>/^\d{4}-\d{2}-\d{2}$/\<close> through \<^verbatim>\<open>String.prototype.match\<close>. The literal has no flags,
  so \<^verbatim>\<open>^\<close> holds at index 0 only, \<^verbatim>\<open>$\<close> holds at the end of the input only, and
  \<^verbatim>\<open>\d\<close> is one of the ten ASCII digits. The nodes below are the ones this literal is
  made of: the two assertions, a digit repeated a fixed number of times, and one
  literal character.
\<close>

datatype re_node = Bol | Eol | Digits nat | Lit char

definition is_digit :: "char \<Rightarrow> bool" where
  "is_digit c = (let n = (of_char c :: nat) in 48 \<le> n \<and> n \<le> 57)"

text \<open>
  \<open>match_nodes ns pos rest\<close> runs the nodes \<open>ns\<close> at index \<open>pos\<close> of the input, of which
  \<open>rest\<close> is what lies from \<open>pos\<close> on; it returns the text consumed. No node of this
  fragment has a choice, so there is nothing to backtrack over.
\<close>

fun match_nodes :: "re_node list \<Rightarrow> nat \<Rightarrow> string \<Rightarrow> string option" where
  "match_nodes [] pos rest = Some []"
| "match_nodes (Bol # ns) pos rest =
     (if pos = 0 then match_nodes ns pos rest else None)"
| "match_nodes (Eol # ns) pos rest =
     (if rest = [] then match_nodes ns pos rest else None)"
| "match_nodes (Lit c # ns) pos [] = None"
| "match_nodes (Lit c # ns) pos (x # xs) =
     (if x = c then map_option ((#) x) (match_nodes ns (Suc pos) xs) else None)"
| "match_nodes (Digits 0 # ns) pos rest = match_nodes ns pos rest"
| "match_nodes (Digits (Suc k) # ns) pos [] = None"
| "match_nodes (Digits (Suc k) # ns) pos (x # xs) =
     (if is_digit x
      then map_option ((#) x) (match_nodes (Digits k # ns) (Suc pos) xs)
      else None)"

text \<open>
  The search of a regular expression without the sticky flag: try index \<open>pos\<close>, then
  every later index up to and including the end of the input.
\<close>

fun re_search :: "re_node list \<Rightarrow> nat \<Rightarrow> string \<Rightarrow> string option" where
  "re_search ns pos [] = match_nodes ns pos []"
| "re_search ns pos (x # xs) =
     (case match_nodes ns pos (x # xs) of
        Some m \<Rightarrow> Some m
      | None \<Rightarrow> re_search ns (Suc pos) xs)"

text \<open>The literal \<^verbatim>\<open>/^\d{4}-\d{2}-\d{2}$/\<close>.\<close>

definition daily_note_re :: "re_node list" where
  "daily_note_re =
     [Bol, Digits 4, Lit (CHR ''-''), Digits 2, Lit (CHR ''-''), Digits 2, Eol]"

text \<open>
  What \<^verbatim>\<open>fileName?.match(re)\<close> evaluates to: \<^verbatim>\<open>undefined\<close> when the receiver is
  \<^verbatim>\<open>null\<close> (the optional chain short-circuits), \<^verbatim>\<open>null\<close> when nothing matches, and
  otherwise the match array, whose element 0 is the matched text (the literal has no
  capture group, so the array has that one element).
\<close>

datatype match_result = Undefined | Null | MatchArray "string list"

definition string_match :: "string \<Rightarrow> re_node list \<Rightarrow> match_result" where
  "string_match s re = (case re_search re 0 s of None \<Rightarrow> Null | Some m \<Rightarrow> MatchArray [m])"

definition optional_match :: "string option \<Rightarrow> re_node list \<Rightarrow> match_result" where
  "optional_match fileName re =
     (case fileName of None \<Rightarrow> Undefined | Some s \<Rightarrow> string_match s re)"

section \<open>The date resolver\<close>

text \<open>
  \<^verbatim>\<open>return fileName?.match(/^\d{4}-\d{2}-\d{2}$/) !== null;\<close>
  The two source files have the same text for this method and the next.
\<close>

definition isDailyNote :: "string option \<Rightarrow> bool" where
  "isDailyNote fileName = (optional_match fileName daily_note_re \<noteq> Null)"

text \<open>
  \<^verbatim>\<open>return fileName?.match(/^\d{4}-\d{2}-\d{2}$/)?.[0] || null;\<close>
  The second optional chain gives \<^verbatim>\<open>undefined\<close> for \<^verbatim>\<open>undefined\<close> and for \<^verbatim>\<open>null\<close>;
  \<^verbatim>\<open>||\<close> replaces every falsy value, the empty string among them, by \<^verbatim>\<open>null\<close>.
\<close>

definition extractDateFromFileName :: "string option \<Rightarrow> string option" where
  "extractDateFromFileName fileName =
     (case optional_match fileName daily_note_re of
        MatchArray (m # ms) \<Rightarrow> (if m = [] then None else Some m)
      | _ \<Rightarrow> None)"

text \<open>
  The pattern in the words of the specification: four digits, a hyphen, two digits, a
  hyphen, two digits, and nothing before or after.
\<close>

definition matches_date_pattern :: "string \<Rightarrow> bool" where
  "matches_date_pattern s =
     (length s = 10 \<and>
      list_all is_digit (take 4 s) \<and> s ! 4 = CHR ''-'' \<and>
      list_all is_digit (take 2 (drop 5 s)) \<and> s ! 7 = CHR ''-'' \<and>
      list_all is_digit (drop 8 s))"

section \<open>The log query\<close>

text \<open>
  \<^verbatim>\<open>execSync\<close> is the one point where the plugin reaches the operating system. It is
  taken as a parameter: a function from the command line to either the error it
  throws (a non-zero exit status, or a shell that could not be started) or the
  standard output as the string that \<^verbatim>\<open>toString()\<close> makes of it. A command that never
  returns is outside this model.
\<close>

datatype exec_error = NonZeroExit int | SpawnError string

type_synonym shell = "string \<Rightarrow> exec_error + string"

text \<open>
  \<^verbatim>\<open>String.prototype.trim\<close> removes white space and line terminators from both ends.
  Below code unit 256 these are tab, line feed, vertical tab, form feed, carriage
  return, space and the no-break space.
\<close>

definition is_white_space :: "char \<Rightarrow> bool" where
  "is_white_space c = ((of_char c :: nat) \<in> {9, 10, 11, 12, 13, 32, 160})"

definition trim :: "string \<Rightarrow> string" where
  "trim s = rev (dropWhile is_white_space (rev (dropWhile is_white_space s)))"

text \<open>
  The template literal of \<^verbatim>\<open>getGitLog\<close> in the file with the all-branches option
  (\<^verbatim>\<open>src/unnamed/part_000\<close>):
  \<^verbatim>\<open>git -C "${repoPath}" log ${allBranchesFlag} --oneline --no-merges --date=short
  --format="%h %s (%D)" --after="${date} 00:00:00" --before="${date} 23:59:59"\<close>
  (one line in the source), with \<^verbatim>\<open>allBranchesFlag = allBranches ? "--all" : ""\<close>.
\<close>

definition getGitLog_command :: "string \<Rightarrow> string \<Rightarrow> bool \<Rightarrow> string" where
  \<open>getGitLog_command date repoPath allBranches =
     (let allBranchesFlag = (if allBranches then ''--all'' else []) in
      ''git -C "'' @ repoPath @ ''" log '' @ allBranchesFlag @
      '' --oneline --no-merges --date=short --format="%h %s (%D)" --after="'' @ date @
      '' 00:00:00" --before="'' @ date @ '' 23:59:59"'')\<close>

text \<open>
  The template literal of \<^verbatim>\<open>getGitLog\<close> in \<^verbatim>\<open>src/main.ts\<close>, which has no
  all-branches option:
  \<^verbatim>\<open>git -C "${repoPath}" log --oneline --no-merges --date=short --format="%h %s"
  --after="${date} 00:00:00" --before="${date} 23:59:59"\<close>.
\<close>

definition getGitLog_command_main_ts :: "string \<Rightarrow> string \<Rightarrow> string" where
  \<open>getGitLog_command_main_ts date repoPath =
     ''git -C "'' @ repoPath @
     ''" log --oneline --no-merges --date=short --format="%h %s" --after="'' @ date @
     '' 00:00:00" --before="'' @ date @ '' 23:59:59"''\<close>

text \<open>
  \<^verbatim>\<open>getGitLog(date, repoPath, allBranches = false)\<close>. The third argument arrives as
  \<^verbatim>\<open>repo.allBranches\<close>, an optional field: \<^term>\<open>None\<close> is \<^verbatim>\<open>undefined\<close>, for which the
  default value \<^verbatim>\<open>false\<close> is taken. The result is the returned string together with
  what the \<^verbatim>\<open>catch\<close> block passes to \<^verbatim>\<open>console.error\<close>.
\<close>

definition getGitLog :: "shell \<Rightarrow> string \<Rightarrow> string \<Rightarrow> bool option \<Rightarrow> string \<times> exec_error list" where
  "getGitLog execSync date repoPath allBranches_arg =
     (let allBranches = (case allBranches_arg of None \<Rightarrow> False | Some b \<Rightarrow> b) in
      case execSync (getGitLog_command date repoPath allBranches) of
        Inr stdout \<Rightarrow>
          (let output = trim stdout in
           (if output = [] then ''No commits found for the specified date.'' else output, []))
      | Inl error \<Rightarrow> (''Error: Unable to retrieve git log.'', [error]))"

section \<open>Repositories, settings and the plugin's state\<close>

text \<open>
  A \<^verbatim>\<open>GitRepo\<close> is an object that the settings array, the selection dialog and the
  selection result all refer to, and the dialog writes its \<^verbatim>\<open>allBranches\<close> field. So
  the objects live in a store, a function from references to objects, and the arrays
  hold references.
\<close>

type_synonym ref = nat

record GitRepo =
  name :: string
  path :: string
  allBranches :: "bool option"

type_synonym store = "ref \<Rightarrow> GitRepo"

record GitLogPluginSettings =
  repos :: "ref list"
  lastSelectedRepos :: "string list"

text \<open>
  The plugin instance with what it acts on: the store, \<^verbatim>\<open>this.settings\<close>, the blob last
  written by \<^verbatim>\<open>saveData\<close> (the objects by value, as serialised), whether the host can
  write it, the notices shown, the texts handed to \<^verbatim>\<open>editor.replaceSelection\<close>, and
  the errors logged to the console.
\<close>

record plugin_state =
  heap :: store
  settings :: GitLogPluginSettings
  disk :: "(GitRepo list \<times> string list) option"
  saveData_ok :: bool
  notices :: "string list"
  editor :: "string list"
  console :: "exec_error list"

text \<open>
  \<^verbatim>\<open>await this.saveData(this.settings)\<close>: \<^term>\<open>None\<close> is the rejected promise of a host
  that cannot write.
\<close>

definition saveSettings :: "plugin_state \<Rightarrow> plugin_state option" where
  "saveSettings s =
     (if saveData_ok s
      then Some (s\<lparr>disk := Some (map (heap s) (repos (settings s)),
                                  lastSelectedRepos (settings s))\<rparr>)
      else None)"

text \<open>A promise that is awaited: still pending for ever, or resolved with a value.\<close>

datatype 'a promise = Pending | Resolved 'a

section \<open>The two dialogs\<close>

text \<open>
  The date prompt has one button, which closes the dialog and calls \<^verbatim>\<open>onSubmit\<close> with
  the value of the input field; \<^verbatim>\<open>onClose\<close> only empties the dialog. So the promise of
  \<^verbatim>\<open>promptForDate\<close> resolves on the button and on nothing else.
\<close>

datatype date_prompt_action = ClickContinue string | CloseDatePrompt

definition promptForDate :: "date_prompt_action \<Rightarrow> string option promise" where
  "promptForDate u =
     (case u of ClickContinue v \<Rightarrow> Resolved (Some v) | CloseDatePrompt \<Rightarrow> Pending)"

text \<open>
  The repository dialog. Beside the fields of the class, the record holds the checked
  state of the two checkboxes that \<^verbatim>\<open>onOpen\<close> creates for each repository.
\<close>

record RepoSelectionModal =
  modal_repos :: "ref list"
  modal_lastSelectedRepos :: "string list"
  selectedRepos :: "ref list"
  checkbox :: "bool list"
  allBranchesCheckbox :: "bool list"

definition truthy :: "bool option \<Rightarrow> bool" where
  "truthy b = (case b of None \<Rightarrow> False | Some v \<Rightarrow> v)"

text \<open>The constructor: \<^verbatim>\<open>repos.filter((repo) => lastSelectedRepos.includes(repo.name))\<close>.\<close>

definition new_RepoSelectionModal :: "store \<Rightarrow> ref list \<Rightarrow> string list \<Rightarrow> RepoSelectionModal" where
  "new_RepoSelectionModal h rs lastSelected =
     \<lparr>modal_repos = rs, modal_lastSelectedRepos = lastSelected,
      selectedRepos = filter (\<lambda>repo. name (h repo) \<in> set lastSelected) rs,
      checkbox = [], allBranchesCheckbox = []\<rparr>"

definition onOpen :: "store \<Rightarrow> RepoSelectionModal \<Rightarrow> RepoSelectionModal" where
  "onOpen h m =
     m\<lparr>checkbox := map (\<lambda>repo. name (h repo) \<in> set (modal_lastSelectedRepos m)) (modal_repos m),
       allBranchesCheckbox := map (\<lambda>repo. truthy (allBranches (h repo))) (modal_repos m)\<rparr>"

text \<open>
  A change event: the user flips the checkbox of row \<open>i\<close>, and the listener reads the
  new state from the event's target. There is no checkbox for a row that does not
  exist, so such an event changes nothing.
\<close>

datatype modal_event = ToggleRepo nat | ToggleAllBranches nat

fun modal_change :: "modal_event \<Rightarrow> store \<times> RepoSelectionModal \<Rightarrow> store \<times> RepoSelectionModal" where
  "modal_change (ToggleRepo i) (h, m) =
     (if i < length (modal_repos m) then
        (let repo = modal_repos m ! i;
             checked = (\<not> checkbox m ! i);
             m1 = m\<lparr>checkbox := (checkbox m)[i := checked]\<rparr>
         in if checked
            then (h, m1\<lparr>selectedRepos := selectedRepos m @ [repo]\<rparr>)
            else (h, m1\<lparr>selectedRepos :=
                          filter (\<lambda>r. name (h r) \<noteq> name (h repo)) (selectedRepos m)\<rparr>))
      else (h, m))"
| "modal_change (ToggleAllBranches i) (h, m) =
     (if i < length (modal_repos m) then
        (let repo = modal_repos m ! i;
             checked = (\<not> allBranchesCheckbox m ! i)
         in (h(repo := (h repo)\<lparr>allBranches := Some checked\<rparr>),
             m\<lparr>allBranchesCheckbox := (allBranchesCheckbox m)[i := checked]\<rparr>))
      else (h, m))"

text \<open>
  The dialog is constructed and opened, and the user's change events run in order
  (\<open>modal_after\<close>). Then the dialog ends: the button \<^verbatim>\<open>Insert Git Log\<close> closes it and calls \<^verbatim>\<open>onSubmit\<close> with
  \<^verbatim>\<open>this.selectedRepos\<close>; closing it any other way runs \<^verbatim>\<open>onClose\<close> only, and
  \<^verbatim>\<open>onSubmit\<close> is never called. The second component of the result is the argument of
  \<^verbatim>\<open>onSubmit\<close>, if it is called.
\<close>

datatype modal_end = ClickInsert | CloseModal

definition modal_after :: "store \<Rightarrow> ref list \<Rightarrow> string list \<Rightarrow> modal_event list \<Rightarrow> store \<times> RepoSelectionModal" where
  "modal_after h rs lastSelected events =
     fold modal_change events (h, onOpen h (new_RepoSelectionModal h rs lastSelected))"

definition RepoSelectionModal_run ::
  "store \<Rightarrow> ref list \<Rightarrow> string list \<Rightarrow> modal_event list \<Rightarrow> modal_end \<Rightarrow> store \<times> ref list option" where
  "RepoSelectionModal_run h rs lastSelected events fin =
     (let (h', m) = modal_after h rs lastSelected events
      in (h', case fin of ClickInsert \<Rightarrow> Some (selectedRepos m) | CloseModal \<Rightarrow> None))"

text \<open>
  \<^verbatim>\<open>promptForRepos\<close>: the callback given to the dialog stores the names of the result,
  saves the settings and only then resolves the promise.
\<close>

definition promptForRepos ::
  "modal_event list \<Rightarrow> modal_end \<Rightarrow> plugin_state \<Rightarrow> plugin_state \<times> ref list promise" where
  "promptForRepos events fin s =
     (case RepoSelectionModal_run (heap s) (repos (settings s))
             (lastSelectedRepos (settings s)) events fin of
        (h, None) \<Rightarrow> (s\<lparr>heap := h\<rparr>, Pending)
      | (h, Some result) \<Rightarrow>
          (let s1 = s\<lparr>heap := h,
                      settings := (settings s)\<lparr>lastSelectedRepos := map (\<lambda>repo. name (h repo)) result\<rparr>\<rparr>
           in case saveSettings s1 of
                None \<Rightarrow> (s1, Pending)
              | Some s2 \<Rightarrow> (s2, Resolved result)))"

section \<open>The command\<close>

text \<open>
  The \<^verbatim>\<open>for\<close> loop of \<^verbatim>\<open>insertGitLog\<close> over the selected repositories, in the file with
  the all-branches option. The accumulator is the text \<^verbatim>\<open>gitLog\<close> and the console.
\<close>

fun gitLog_loop ::
  "shell \<Rightarrow> string \<Rightarrow> store \<Rightarrow> ref list \<Rightarrow> string \<times> exec_error list \<Rightarrow> string \<times> exec_error list" where
  "gitLog_loop execSync date h [] acc = acc"
| "gitLog_loop execSync date h (r # rs) (gitLog, con) =
     (let repo = h r;
          gitLog1 = gitLog @ ''>[!NOTE]- `git log` for '' @ name repo @
                      (if truthy (allBranches repo) then '' (all branches)'' else []) @
                      [CHR 0x0A];
          gitLog2 = gitLog1 @ ''> ```'' @ [CHR 0x0A];
          (log, errs) = getGitLog execSync date (path repo) (allBranches repo);
          gitLog3 = gitLog2 @ ''> '' @ log @ [CHR 0x0A];
          gitLog4 = gitLog3 @ ''> ```'' @ [CHR 0x0A];
          gitLog5 = gitLog4 @ [CHR 0x0A]
      in gitLog_loop execSync date h rs (gitLog5, con @ errs))"

text \<open>
  The block of one repository in the words of the specification (its
  \<^verbatim>\<open>formatBlock(repoName, allBranches, logText)\<close>): the header line with the name,
  annotated when all branches are included, then the log text inside a quoted fence,
  then one blank line.
\<close>

definition formatBlock :: "string \<Rightarrow> bool \<Rightarrow> string \<Rightarrow> string" where
  "formatBlock repoName ab logText =
     ''>[!NOTE]- `git log` for '' @ repoName @ (if ab then '' (all branches)'' else []) @
     [CHR 0x0A] @ ''> ```'' @ [CHR 0x0A] @ ''> '' @ logText @ [CHR 0x0A] @
     ''> ```'' @ [CHR 0x0A] @ [CHR 0x0A]"

text \<open>
  \<^verbatim>\<open>if (date)\<close>: \<^verbatim>\<open>null\<close> and the empty string are falsy, and the \<^verbatim>\<open>else\<close> branch is
  taken for both.
\<close>

definition if_date :: "string option \<Rightarrow> string option" where
  "if_date date = (case date of None \<Rightarrow> None | Some d \<Rightarrow> if d = [] then None else Some d)"

text \<open>
  The first lines of \<^verbatim>\<open>insertGitLog\<close>, which settle the date:
  \<^verbatim>\<open>const fileName = view.file?.basename ?? "";\<close> and the \<^verbatim>\<open>if\<close> that takes the date from
  the file name of a daily note and asks the user otherwise.
\<close>

definition insertGitLog_date :: "string option \<Rightarrow> date_prompt_action \<Rightarrow> string option promise" where
  "insertGitLog_date basename date_action =
     (let fileName = (case basename of None \<Rightarrow> [] | Some b \<Rightarrow> b)
      in if isDailyNote (Some fileName)
         then Resolved (extractDateFromFileName (Some fileName))
         else promptForDate date_action)"

text \<open>
  \<^verbatim>\<open>insertGitLog\<close>. Its inputs are the shell, \<^verbatim>\<open>view.file?.basename\<close>, what the user
  does in the date prompt should it open, and what the user does in the repository
  dialog should it open. The promise of the result is pending when the command never
  gets past one of its two \<^verbatim>\<open>await\<close>s.
\<close>

definition insertGitLog ::
  "shell \<Rightarrow> string option \<Rightarrow> date_prompt_action \<Rightarrow> modal_event list \<Rightarrow> modal_end \<Rightarrow>
   plugin_state \<Rightarrow> plugin_state \<times> unit promise" where
  "insertGitLog execSync basename date_action events fin s =
     (case insertGitLog_date basename date_action of
        Pending \<Rightarrow> (s, Pending)
      | Resolved date \<Rightarrow>
          (case if_date date of
             Some d \<Rightarrow>
               (case promptForRepos events fin s of
                  (s1, Pending) \<Rightarrow> (s1, Pending)
                | (s1, Resolved selected) \<Rightarrow>
                    if length selected > 0 then
                      (let (gitLog, errs) = gitLog_loop execSync d (heap s1) selected ([], [])
                       in (s1\<lparr>editor := editor s1 @ [gitLog],
                              console := console s1 @ errs\<rparr>,
                           Resolved ()))
                    else
                      (s1\<lparr>notices := notices s1 @
                              [''No repositories selected. Git log not inserted.'']\<rparr>,
                       Resolved ()))
           | None \<Rightarrow>
               (s\<lparr>notices := notices s @ [''No date provided. Git log not inserted.'']\<rparr>,
                Resolved ())))"

section \<open>Sample data\<close>

text \<open>
  Three repositories \<open>A\<close>, \<open>B\<close>, \<open>C\<close> at the references 0, 1, 2, none with the
  all-branches flag set, and a plugin whose settings list them in this order, with \<open>A\<close>
  and \<open>C\<close> selected last time. The sample shell fails for the repository path
  \<^verbatim>\<open>/a\<close>, prints one commit for \<^verbatim>\<open>/b\<close>, and prints nothing for any other command.
\<close>

definition sample_store :: store where
  "sample_store =
     (\<lambda>r. \<lparr>name = ''C'', path = ''/c'', allBranches = None\<rparr>)
       (0 := \<lparr>name = ''A'', path = ''/a'', allBranches = None\<rparr>,
        1 := \<lparr>name = ''B'', path = ''/b'', allBranches = None\<rparr>)"

definition sample_state :: plugin_state where
  "sample_state =
     \<lparr>heap = sample_store,
      settings = \<lparr>repos = [0, 1, 2], lastSelectedRepos = [''A'', ''C'']\<rparr>,
      disk = None, saveData_ok = True, notices = [], editor = [], console = []\<rparr>"

definition sample_shell :: shell where
  "sample_shell command =
     (if command = getGitLog_command ''2024-03-15'' ''/a'' False then Inl (NonZeroExit 128)
      else if command = getGitLog_command ''2024-03-15'' ''/b'' False
           then Inr (''abc123 fix bug'' @ [CHR 0x0A])
      else if command = getGitLog_command ''2024-03-15'' ''/b'' True
           then Inr (''abc123 fix bug'' @ [CHR 0x0A])
      else Inr [])"

section \<open>The invariant of the repository dialog\<close>


section \<open>Properties of the date resolver\<close>

lemma match_nodes_Digits:
  "match_nodes (Digits k # ns) pos rest =
     (if k \<le> length rest \<and> list_all is_digit (take k rest)
      then map_option ((@) (take k rest)) (match_nodes ns (pos + k) (drop k rest))
      else None)"
proof (induction k arbitrary: pos rest)
  case 0
  have "(@) ([] :: string) = id" by (simp add: fun_eq_iff)
  then show ?case by (simp add: option.map_id)
next
  case (Suc k)
  show ?case
  proof (cases rest)
    case Nil
    then show ?thesis by simp
  next
    case (Cons x xs)
    then show ?thesis
      by (simp add: Suc.IH option.map_comp comp_def)
  qed
qed

lemma match_nodes_Lit:
  "match_nodes (Lit c # ns) pos rest =
     (if rest \<noteq> [] \<and> hd rest = c
      then map_option ((#) c) (match_nodes ns (Suc pos) (tl rest))
      else None)"
  by (cases rest) auto

lemma re_search_Bol_later:
  "0 < pos \<Longrightarrow> re_search (Bol # ns) pos rest = None"
  by (induction rest arbitrary: pos) auto

lemma re_search_Bol:
  "re_search (Bol # ns) 0 rest = match_nodes ns 0 rest"
  by (cases rest) (auto simp: re_search_Bol_later split: option.splits)

lemma match_Digits_SomeD:
  assumes "match_nodes (Digits k # ns) pos rest = Some m"
  obtains d r m' where "rest = d @ r" "length d = k" "list_all is_digit d"
    "match_nodes ns (pos + k) r = Some m'" "m = d @ m'"
proof -
  from assms have a: "k \<le> length rest" "list_all is_digit (take k rest)"
    and b: "map_option ((@) (take k rest)) (match_nodes ns (pos + k) (drop k rest)) = Some m"
    by (auto simp: match_nodes_Digits split: if_splits)
  from b obtain m' where "match_nodes ns (pos + k) (drop k rest) = Some m'" "m = take k rest @ m'"
    by auto
  with a that [of "take k rest" "drop k rest" m'] show thesis by simp
qed

lemma match_Lit_SomeD:
  assumes "match_nodes (Lit c # ns) pos rest = Some m"
  obtains r m' where "rest = c # r" "match_nodes ns (Suc pos) r = Some m'" "m = c # m'"
  using assms by (cases rest) (auto split: if_splits)

lemma match_Some_pattern:
  assumes "match_nodes [Digits 4, Lit (CHR ''-''), Digits 2, Lit (CHR ''-''), Digits 2, Eol] 0 s = Some m"
  shows "matches_date_pattern s"
proof -
  from assms obtain d1 r1 m1 where 1: "s = d1 @ r1" "length d1 = 4" "list_all is_digit d1"
    "match_nodes [Lit (CHR ''-''), Digits 2, Lit (CHR ''-''), Digits 2, Eol] (0 + 4) r1 = Some m1"
    by (rule match_Digits_SomeD)
  from 1(4) obtain r2 m2 where 2: "r1 = CHR ''-'' # r2"
    "match_nodes [Digits 2, Lit (CHR ''-''), Digits 2, Eol] (Suc (0 + 4)) r2 = Some m2"
    by (rule match_Lit_SomeD)
  from 2(2) obtain d2 r3 m3 where 3: "r2 = d2 @ r3" "length d2 = 2" "list_all is_digit d2"
    "match_nodes [Lit (CHR ''-''), Digits 2, Eol] (Suc (0 + 4) + 2) r3 = Some m3"
    by (rule match_Digits_SomeD)
  from 3(4) obtain r4 m4 where 4: "r3 = CHR ''-'' # r4"
    "match_nodes [Digits 2, Eol] (Suc (Suc (0 + 4) + 2)) r4 = Some m4"
    by (rule match_Lit_SomeD)
  from 4(2) obtain d3 r5 m5 where 5: "r4 = d3 @ r5" "length d3 = 2" "list_all is_digit d3"
    "match_nodes [Eol] (Suc (Suc (0 + 4) + 2) + 2) r5 = Some m5"
    by (rule match_Digits_SomeD)
  from 5(4) have 6: "r5 = []" by (simp split: if_splits)
  have s: "s = d1 @ CHR ''-'' # d2 @ CHR ''-'' # d3"
    using 1(1) 2(1) 3(1) 4(1) 5(1) 6 by simp
  show ?thesis
    unfolding matches_date_pattern_def s
    using 1(2,3) 3(2,3) 5(2,3)
    by (simp add: nth_append)
qed

lemma daily_search:
  "re_search daily_note_re 0 s = (if matches_date_pattern s then Some s else None)"
proof (cases "matches_date_pattern s")
  case True
  then obtain a b c d e f g h i j where s: "s = [a,b,c,d,e,f,g,h,i,j]"
    unfolding matches_date_pattern_def
    by (auto simp: length_Suc_conv eval_nat_numeral)
  with True show ?thesis
    unfolding daily_note_re_def re_search_Bol
    by (simp add: matches_date_pattern_def eval_nat_numeral)
next
  case False
  have "match_nodes [Digits 4, Lit (CHR ''-''), Digits 2, Lit (CHR ''-''), Digits 2, Eol] 0 s = None"
  proof (rule ccontr)
    assume "\<not> ?thesis"
    then obtain m where "match_nodes [Digits 4, Lit (CHR ''-''), Digits 2, Lit (CHR ''-''), Digits 2, Eol] 0 s = Some m"
      by auto
    then have "matches_date_pattern s" by (rule match_Some_pattern)
    with False show False by contradiction
  qed
  with False show ?thesis
    unfolding daily_note_re_def re_search_Bol by simp
qed

lemma isDailyNote_Some: "isDailyNote (Some t) = matches_date_pattern t"
  by (simp add: isDailyNote_def optional_match_def string_match_def daily_search)

lemma extractDateFromFileName_Some:
  "extractDateFromFileName (Some t) = (if matches_date_pattern t then Some t else None)"
proof -
  have "matches_date_pattern t \<Longrightarrow> t \<noteq> []"
    by (auto simp: matches_date_pattern_def)
  then show ?thesis
    by (simp add: extractDateFromFileName_def optional_match_def string_match_def daily_search)
qed

text \<open>
  Claim C1. For every string \<open>s\<close>, \<^verbatim>\<open>isDailyNote(s)\<close> is true exactly when \<open>s\<close> is four
  digits, a hyphen, two digits, a hyphen and two digits with nothing around them (no
  calendar check: \<^verbatim>\<open>2024-13-99\<close> passes), and \<^verbatim>\<open>extractDateFromFileName(s)\<close> is \<open>s\<close>
  itself in that case and \<^verbatim>\<open>null\<close> in every other: for the empty string, a partial date
  and a date with text before or after it.
\<close>

theorem date_resolver_matches_pattern:
  "isDailyNote (Some s) = matches_date_pattern s \<and>
   extractDateFromFileName (Some s) = (if matches_date_pattern s then Some s else None) \<and>
   isDailyNote (Some ''2024-13-99'') \<and>
   extractDateFromFileName (Some ''2024-13-99'') = Some ''2024-13-99'' \<and>
   \<not> isDailyNote (Some []) \<and> extractDateFromFileName (Some []) = None \<and>
   \<not> isDailyNote (Some ''2024-03'') \<and> extractDateFromFileName (Some ''2024-03'') = None \<and>
   \<not> isDailyNote (Some ''notes 2024-03-15'') \<and>
   extractDateFromFileName (Some ''notes 2024-03-15'') = None \<and>
   \<not> isDailyNote (Some ''2024-03-15 notes'') \<and>
   extractDateFromFileName (Some ''2024-03-15 notes'') = None"
proof -
  have gen: "isDailyNote (Some t) = matches_date_pattern t \<and>
      extractDateFromFileName (Some t) = (if matches_date_pattern t then Some t else None)" for t
    by (simp add: isDailyNote_Some extractDateFromFileName_Some)
  have yes: "matches_date_pattern ''2024-13-99''"
    by (simp add: matches_date_pattern_def is_digit_def)
  have no: "\<not> matches_date_pattern []" "\<not> matches_date_pattern ''2024-03''"
    "\<not> matches_date_pattern ''notes 2024-03-15''"
    "\<not> matches_date_pattern ''2024-03-15 notes''"
    by (simp_all add: matches_date_pattern_def)
  show ?thesis
    using gen [of s] by (simp add: gen yes no)
qed

text \<open>
  Claim C10. For the absent file name the two methods disagree: the optional chain of
  \<^verbatim>\<open>isDailyNote(null)\<close> yields \<^verbatim>\<open>undefined\<close>, which is not \<^verbatim>\<open>null\<close>, so the check is
  true, while \<^verbatim>\<open>extractDateFromFileName(null)\<close> is \<^verbatim>\<open>null\<close>.
\<close>

theorem null_file_name_disagreement:
  "isDailyNote None = True \<and> extractDateFromFileName None = None"
  by (simp add: isDailyNote_def extractDateFromFileName_def optional_match_def)


section \<open>Properties of the command line\<close>

lemma sublist_split_at:
  assumes "c \<notin> set n"
  shows "sublist n (A @ c # B) \<longleftrightarrow> sublist n A \<or> sublist n B"
proof
  assume "sublist n (A @ c # B)"
  then obtain ps ss where eq: "A @ c # B = ps @ n @ ss" by (auto simp: sublist_def)
  show "sublist n A \<or> sublist n B"
  proof (cases "length (ps @ n) \<le> length A")
    case True
    from eq have "take (length (ps @ n)) (A @ c # B) = ps @ n"
      by (metis append.assoc append_eq_conv_conj)
    with True have "take (length (ps @ n)) A = ps @ n" by simp
    then have "A = ps @ n @ drop (length (ps @ n)) A"
      by (metis append.assoc append_take_drop_id)
    then show ?thesis by (auto simp: sublist_def)
  next
    case False
    then have len: "length A < length ps + length n" by simp
    have "length A < length ps"
    proof (rule ccontr)
      assume "\<not> length A < length ps"
      then have le: "length ps \<le> length A" by simp
      have "(A @ c # B) ! length A = c" by simp
      with eq have "(ps @ n @ ss) ! length A = c" by simp
      moreover have lt: "length A - length ps < length n" using le len by simp
      ultimately have "n ! (length A - length ps) = c"
        using le by (simp add: nth_append)
      with lt have "c \<in> set n" by (metis nth_mem)
      with assms show False by contradiction
    qed
    then have "length (A @ [c]) \<le> length ps" by simp
    moreover from eq have "(A @ [c]) @ B = ps @ (n @ ss)" by simp
    ultimately obtain us where "ps = (A @ [c]) @ us" "B = us @ (n @ ss)"
      by (metis append_eq_append_conv_if append_take_drop_id)
    then show ?thesis by (auto simp: sublist_def)
  qed
next
  assume "sublist n A \<or> sublist n B"
  then show "sublist n (A @ c # B)"
  proof
    assume "sublist n A"
    then show ?thesis by (metis sublist_appendI sublist_order.order_trans sublist_append_rightI)
  next
    assume "sublist n B"
    then obtain ps ss where "B = ps @ n @ ss" by (auto simp: sublist_def)
    then have "A @ c # B = (A @ c # ps) @ n @ ss" by simp
    then show ?thesis unfolding sublist_def by blast
  qed
qed

lemma getGitLog_command_shape:
  \<open>getGitLog_command date repoPath ab =
     ''git -C '' @ CHR 0x22 # repoPath @ CHR 0x22 #
     ('' log '' @ (if ab then ''--all'' else []) @
        '' --oneline --no-merges --date=short --format='') @ CHR 0x22 #
     ''%h %s (%D)'' @ CHR 0x22 # '' --after='' @ CHR 0x22 #
     date @ CHR '' '' # ''00:00:00'' @ CHR 0x22 # '' --before='' @ CHR 0x22 #
     date @ CHR '' '' # ''23:59:59'' @ CHR 0x22 # []\<close>
  by (simp add: getGitLog_command_def)

lemma getGitLog_command_main_ts_shape:
  \<open>getGitLog_command_main_ts date repoPath =
     ''git -C '' @ CHR 0x22 # repoPath @ CHR 0x22 #
     '' log --oneline --no-merges --date=short --format='' @ CHR 0x22 #
     ''%h %s'' @ CHR 0x22 # '' --after='' @ CHR 0x22 #
     date @ CHR '' '' # ''00:00:00'' @ CHR 0x22 # '' --before='' @ CHR 0x22 #
     date @ CHR '' '' # ''23:59:59'' @ CHR 0x22 # []\<close>
  by (simp add: getGitLog_command_main_ts_def)


lemma needle_in_command:
  assumes q: "CHR 0x22 \<notin> set n" and sp: "CHR '' '' \<notin> set n"
  shows "sublist n (getGitLog_command date repoPath ab) =
     (sublist n ''git -C '' \<or> sublist n repoPath \<or>
      sublist n ('' log '' @ (if ab then ''--all'' else []) @
        '' --oneline --no-merges --date=short --format='') \<or>
      sublist n ''%h %s (%D)'' \<or> sublist n '' --after='' \<or>
      sublist n date \<or> sublist n ''00:00:00'' \<or> sublist n '' --before='' \<or>
      sublist n ''23:59:59'' \<or> sublist n [])"
  unfolding getGitLog_command_shape
  by (simp only: sublist_split_at [OF q] sublist_split_at [OF sp]) blast

lemma needle_in_command_main_ts:
  assumes q: "CHR 0x22 \<notin> set n" and sp: "CHR '' '' \<notin> set n"
  shows "sublist n (getGitLog_command_main_ts date repoPath) =
     (sublist n ''git -C '' \<or> sublist n repoPath \<or>
      sublist n '' log --oneline --no-merges --date=short --format='' \<or>
      sublist n ''%h %s'' \<or> sublist n '' --after='' \<or>
      sublist n date \<or> sublist n ''00:00:00'' \<or> sublist n '' --before='' \<or>
      sublist n ''23:59:59'' \<or> sublist n [])"
  unfolding getGitLog_command_main_ts_shape
  by (simp only: sublist_split_at [OF q] sublist_split_at [OF sp]) blast

lemma window_in_command:
  \<open>sublist (''--after="'' @ date @ '' 00:00:00" --before="'' @ date @ '' 23:59:59"'')
     (getGitLog_command date repoPath ab)\<close>
proof -
  have \<open>getGitLog_command date repoPath ab =
      (''git -C "'' @ repoPath @ ''" log '' @ (if ab then ''--all'' else []) @
       '' --oneline --no-merges --date=short --format="%h %s (%D)" '') @
      (''--after="'' @ date @ '' 00:00:00" --before="'' @ date @ '' 23:59:59"'') @ []\<close>
    by (simp add: getGitLog_command_def)
  then show ?thesis by (simp only: sublist_appendI)
qed

lemma window_in_command_main_ts:
  \<open>sublist (''--after="'' @ date @ '' 00:00:00" --before="'' @ date @ '' 23:59:59"'')
     (getGitLog_command_main_ts date repoPath)\<close>
proof -
  have \<open>getGitLog_command_main_ts date repoPath =
      (''git -C "'' @ repoPath @
       ''" log --oneline --no-merges --date=short --format="%h %s" '') @
      (''--after="'' @ date @ '' 00:00:00" --before="'' @ date @ '' 23:59:59"'') @ []\<close>
    by (simp add: getGitLog_command_main_ts_def)
  then show ?thesis by (simp only: sublist_appendI)
qed

text \<open>
  Claim C2, as amended. In the file with the all-branches option, the command contains
  the \<^verbatim>\<open>--all\<close> flag exactly when \<^verbatim>\<open>allBranches\<close> is requested (or the path or date
  itself carries these characters), but the \<^verbatim>\<open>--format\<close> argument has the ref
  decoration \<^verbatim>\<open>(%D)\<close> whether or not it is requested. The command of \<^verbatim>\<open>src/main.ts\<close>,
  which has no such option, has neither. Every one of these commands has
  \<^verbatim>\<open>--no-merges\<close> and the window from \<^verbatim>\<open>00:00:00\<close> to \<^verbatim>\<open>23:59:59\<close> of the date.
\<close>

theorem getGitLog_command_scope:
  \<open>sublist ''--all'' (getGitLog_command date repoPath ab) =
     (ab \<or> sublist ''--all'' repoPath \<or> sublist ''--all'' date) \<and>
   sublist ''(%D)'' (getGitLog_command date repoPath ab) \<and>
   sublist ''--no-merges'' (getGitLog_command date repoPath ab) \<and>
   sublist (''--after="'' @ date @ '' 00:00:00" --before="'' @ date @ '' 23:59:59"'')
     (getGitLog_command date repoPath ab) \<and>
   sublist ''--all'' (getGitLog_command_main_ts date repoPath) =
     (sublist ''--all'' repoPath \<or> sublist ''--all'' date) \<and>
   sublist ''(%D)'' (getGitLog_command_main_ts date repoPath) =
     (sublist ''(%D)'' repoPath \<or> sublist ''(%D)'' date) \<and>
   sublist ''--no-merges'' (getGitLog_command_main_ts date repoPath) \<and>
   sublist (''--after="'' @ date @ '' 00:00:00" --before="'' @ date @ '' 23:59:59"'')
     (getGitLog_command_main_ts date repoPath)\<close>
proof -
  have a: "sublist ''--all'' (getGitLog_command date repoPath ab) =
     (ab \<or> sublist ''--all'' repoPath \<or> sublist ''--all'' date)"
    by (cases ab) (simp_all add: needle_in_command sublist_code)
  have b: "sublist ''(%D)'' (getGitLog_command date repoPath ab)"
    by (simp add: needle_in_command sublist_code)
  have c: "sublist ''--no-merges'' (getGitLog_command date repoPath ab)"
    by (cases ab) (simp_all add: needle_in_command sublist_code)
  have d: "sublist ''--all'' (getGitLog_command_main_ts date repoPath) =
     (sublist ''--all'' repoPath \<or> sublist ''--all'' date)"
    by (simp add: needle_in_command_main_ts sublist_code)
  have e: "sublist ''(%D)'' (getGitLog_command_main_ts date repoPath) =
     (sublist ''(%D)'' repoPath \<or> sublist ''(%D)'' date)"
    by (simp add: needle_in_command_main_ts sublist_code)
  have f: "sublist ''--no-merges'' (getGitLog_command_main_ts date repoPath)"
    by (simp add: needle_in_command_main_ts sublist_code)
  from a b c d e f window_in_command window_in_command_main_ts
  show ?thesis by blast
qed

text \<open>
  The claim as stated fails: with \<^verbatim>\<open>allBranches\<close> false the command has no \<^verbatim>\<open>--all\<close>
  but still has the ref decoration.
\<close>

theorem decoration_without_all_branches:
  "sublist ''(%D)'' (getGitLog_command ''2024-03-15'' ''/repo'' False) \<and>
   \<not> sublist ''--all'' (getGitLog_command ''2024-03-15'' ''/repo'' False)"
  by (simp add: needle_in_command sublist_code)

lemma trim_Nil_iff: "trim s = [] \<longleftrightarrow> list_all is_white_space s"
proof
  assume "trim s = []"
  then have a: "\<forall>x \<in> set (dropWhile is_white_space s). is_white_space x"
    by (simp add: trim_def dropWhile_eq_Nil_conv)
  show "list_all is_white_space s"
  proof (cases "dropWhile is_white_space s")
    case Nil
    then show ?thesis by (simp add: dropWhile_eq_Nil_conv list_all_iff)
  next
    case (Cons x xs)
    then have "\<not> is_white_space x" by (metis hd_dropWhile list.sel(1) list.distinct(1))
    with a Cons show ?thesis by simp
  qed
next
  assume "list_all is_white_space s"
  then have d: "dropWhile is_white_space s = []"
    by (simp add: dropWhile_eq_Nil_conv list_all_iff)
  show "trim s = []"
    unfolding trim_def d by simp
qed

lemma trim_clean:
  "\<not> is_white_space a \<Longrightarrow> \<not> is_white_space b \<Longrightarrow> trim (a # xs @ [b]) = a # xs @ [b]"
  by (simp add: trim_def)

lemma trim_getGitLog_command:
  "trim (getGitLog_command date repoPath ab) = getGitLog_command date repoPath ab"
proof -
  have "getGitLog_command date repoPath ab =
      CHR ''g'' # (tl (butlast (getGitLog_command date repoPath ab))) @ [CHR 0x22]"
    by (simp add: getGitLog_command_def butlast_append)
  moreover have "\<not> is_white_space (CHR ''g'')" "\<not> is_white_space (CHR 0x22)"
    by (simp_all add: is_white_space_def)
  ultimately show ?thesis by (metis trim_clean)
qed

lemma count_quotes_command:
  "count_list (getGitLog_command date repoPath ab) (CHR 0x22) =
     8 + count_list repoPath (CHR 0x22) + 2 * count_list date (CHR 0x22)"
  by (cases ab) (simp_all add: getGitLog_command_def)

lemma count_quotes_command_main_ts:
  "count_list (getGitLog_command_main_ts date repoPath) (CHR 0x22) =
     8 + count_list repoPath (CHR 0x22) + 2 * count_list date (CHR 0x22)"
  by (simp add: getGitLog_command_main_ts_def)

text \<open>
  Claim C9. The path and the date go into the template as they are, in both files: the
  command is the template with the raw path between double quotes, so its double
  quotes are the eight of the template plus those of the path and twice those of the
  date. For the path \<^verbatim>\<open>a"b\<close> their number is odd, and the text between the first two
  double quotes of the command is no longer the path. With a shell that hands its
  command line back, \<^verbatim>\<open>getGitLog\<close> returns that command: it is what the shell is given.
\<close>

theorem getGitLog_command_verbatim:
  \<open>getGitLog_command date repoPath ab =
     ''git -C "'' @ repoPath @ ''" log '' @ (if ab then ''--all'' else []) @
     '' --oneline --no-merges --date=short --format="%h %s (%D)" --after="'' @ date @
     '' 00:00:00" --before="'' @ date @ '' 23:59:59"'' \<and>
   getGitLog_command_main_ts date repoPath =
     ''git -C "'' @ repoPath @
     ''" log --oneline --no-merges --date=short --format="%h %s" --after="'' @ date @
     '' 00:00:00" --before="'' @ date @ '' 23:59:59"'' \<and>
   count_list (getGitLog_command date repoPath ab) (CHR 0x22) =
     8 + count_list repoPath (CHR 0x22) + 2 * count_list date (CHR 0x22) \<and>
   count_list (getGitLog_command_main_ts date repoPath) (CHR 0x22) =
     8 + count_list repoPath (CHR 0x22) + 2 * count_list date (CHR 0x22) \<and>
   getGitLog (\<lambda>command. Inr command) date repoPath flag =
     (getGitLog_command date repoPath (truthy flag), []) \<and>
   (\<exists>p. CHR 0x22 \<in> set p \<and>
      (\<forall>d b. odd (count_list (getGitLog_command d p b) (CHR 0x22)) \<and>
             odd (count_list (getGitLog_command_main_ts d p) (CHR 0x22)) \<and>
             takeWhile (\<lambda>c. c \<noteq> CHR 0x22) (drop 8 (getGitLog_command d p b)) \<noteq> p \<and>
             takeWhile (\<lambda>c. c \<noteq> CHR 0x22) (drop 8 (getGitLog_command_main_ts d p)) \<noteq> p))\<close>
proof -
  have echo: "getGitLog (\<lambda>command. Inr command) date repoPath flag =
     (getGitLog_command date repoPath (truthy flag), [])"
  proof -
    have "getGitLog_command date repoPath b \<noteq> []" for b
      by (simp add: getGitLog_command_def)
    then show ?thesis
      by (simp add: getGitLog_def truthy_def trim_getGitLog_command Let_def
          split: option.splits)
  qed
  have ex: \<open>CHR 0x22 \<in> set ''a"b'' \<and>
      (\<forall>d b. odd (count_list (getGitLog_command d ''a"b'' b) (CHR 0x22)) \<and>
             odd (count_list (getGitLog_command_main_ts d ''a"b'') (CHR 0x22)) \<and>
             takeWhile (\<lambda>c. c \<noteq> CHR 0x22) (drop 8 (getGitLog_command d ''a"b'' b)) \<noteq> ''a"b'' \<and>
             takeWhile (\<lambda>c. c \<noteq> CHR 0x22) (drop 8 (getGitLog_command_main_ts d ''a"b'')) \<noteq> ''a"b'')\<close>
    by (simp add: count_quotes_command count_quotes_command_main_ts)
       (simp add: getGitLog_command_def getGitLog_command_main_ts_def)
  show ?thesis
    apply (intro conjI)
         apply (simp add: getGitLog_command_def)
        apply (simp add: getGitLog_command_main_ts_def)
       apply (rule count_quotes_command)
      apply (rule count_quotes_command_main_ts)
     apply (rule echo)
    apply (rule exI [of _ \<open>''a"b''\<close>])
    apply (rule ex)
    done
qed

section \<open>Properties of the log query and of the inserted text\<close>

lemma gitLog_loop_step:
  "gitLog_loop execSync date h (r # rs) (g, con) =
     gitLog_loop execSync date h rs
       (g @ formatBlock (name (h r)) (truthy (allBranches (h r)))
              (fst (getGitLog execSync date (path (h r)) (allBranches (h r)))),
        con @ snd (getGitLog execSync date (path (h r)) (allBranches (h r))))"
  by (simp add: Let_def formatBlock_def split: prod.splits)

lemma gitLog_loop_acc:
  "gitLog_loop execSync date h rs (g, con) =
     (g @ concat (map (\<lambda>r. formatBlock (name (h r)) (truthy (allBranches (h r)))
              (fst (getGitLog execSync date (path (h r)) (allBranches (h r))))) rs),
      con @ concat (map (\<lambda>r. snd (getGitLog execSync date (path (h r)) (allBranches (h r)))) rs))"
proof (induction rs arbitrary: g con)
  case Nil
  show ?case by simp
next
  case (Cons r rs)
  show ?case
    by (simp only: gitLog_loop_step Cons.IH list.map concat.simps append_assoc)
qed

lemma promptForRepos_frame:
  assumes "promptForRepos events fin s = (s1, p)"
  shows "editor s1 = editor s \<and> notices s1 = notices s \<and> console s1 = console s \<and>
         repos (settings s1) = repos (settings s) \<and> saveData_ok s1 = saveData_ok s"
  using assms
  by (auto simp: promptForRepos_def saveSettings_def Let_def
      split: prod.splits option.splits if_splits)

lemma sample_shell_a:
  "sample_shell (getGitLog_command ''2024-03-15'' ''/a'' False) = Inl (NonZeroExit 128)"
  by (simp add: sample_shell_def)

lemma sample_shell_b:
  "sample_shell (getGitLog_command ''2024-03-15'' ''/b'' ab) = Inr (''abc123 fix bug'' @ [CHR 0x0A])"
  by (cases ab) (simp_all add: sample_shell_def getGitLog_command_def)

lemma sample_shell_c:
  "sample_shell (getGitLog_command ''2024-03-15'' ''/c'' False) = Inr []"
  by (simp add: sample_shell_def getGitLog_command_def)

lemma getGitLog_sample_b:
  "getGitLog sample_shell ''2024-03-15'' ''/b'' ab = (''abc123 fix bug'', [])"
  by (simp add: getGitLog_def sample_shell_b trim_def is_white_space_def)

lemma insertGitLog_selected:
  assumes "insertGitLog_date basename date_action = Resolved date"
    and "if_date date = Some d"
    and "promptForRepos events fin s = (s1, Resolved selected)"
  shows "insertGitLog execSync basename date_action events fin s =
     (if length selected > 0
      then (s1\<lparr>editor := editor s1 @ [fst (gitLog_loop execSync d (heap s1) selected ([], []))],
               console := console s1 @ snd (gitLog_loop execSync d (heap s1) selected ([], []))\<rparr>,
            Resolved ())
      else (s1\<lparr>notices := notices s1 @ [''No repositories selected. Git log not inserted.'']\<rparr>,
            Resolved ()))"
  using assms by (simp add: insertGitLog_def split: prod.splits)

text \<open>
  Claim C5. When one repository is selected and its query returns \<^verbatim>\<open>abc123 fix bug\<close>,
  the text handed to the editor is the header line with the repository's name, the
  fence, the line \<^verbatim>\<open>> abc123 fix bug\<close>, the fence and one blank line; the suffix
  \<^verbatim>\<open> (all branches)\<close> after the name is the only difference when the repository's
  \<^verbatim>\<open>allBranches\<close> is true. No notice is shown.
\<close>

theorem single_repository_block:
  assumes "insertGitLog_date basename date_action = Resolved date"
    and "if_date date = Some d"
    and "promptForRepos events fin s = (s1, Resolved [r])"
    and "fst (getGitLog execSync d (path (heap s1 r)) (allBranches (heap s1 r))) =
           ''abc123 fix bug''"
  shows "editor (fst (insertGitLog execSync basename date_action events fin s)) =
           editor s @
           [''>[!NOTE]- `git log` for '' @ name (heap s1 r) @
            (if truthy (allBranches (heap s1 r)) then '' (all branches)'' else []) @
            [CHR 0x0A] @ ''> ```'' @ [CHR 0x0A] @ ''> abc123 fix bug'' @ [CHR 0x0A] @
            ''> ```'' @ [CHR 0x0A] @ [CHR 0x0A]] \<and>
         notices (fst (insertGitLog execSync basename date_action events fin s)) = notices s \<and>
         snd (insertGitLog execSync basename date_action events fin s) = Resolved ()"
proof -
  from assms(3) have fr: "editor s1 = editor s" "notices s1 = notices s"
    using promptForRepos_frame by blast+
  show ?thesis
    by (simp add: insertGitLog_selected [OF assms(1,2,3)] gitLog_loop_acc assms(4) fr
        formatBlock_def)
qed

lemma sample_store_simps:
  "sample_store 0 = \<lparr>name = ''A'', path = ''/a'', allBranches = None\<rparr>"
  "sample_store (Suc 0) = \<lparr>name = ''B'', path = ''/b'', allBranches = None\<rparr>"
  "sample_store 2 = \<lparr>name = ''C'', path = ''/c'', allBranches = None\<rparr>"
  by (simp_all add: sample_store_def)

lemma modal_after_sample_open:
  "modal_after sample_store [0, Suc 0, 2] [''A'', ''C''] [] =
     (sample_store,
      \<lparr>modal_repos = [0, Suc 0, 2], modal_lastSelectedRepos = [''A'', ''C''],
       selectedRepos = [0, 2], checkbox = [True, False, True],
       allBranchesCheckbox = [False, False, False]\<rparr>)"
  by (simp add: modal_after_def onOpen_def new_RepoSelectionModal_def sample_store_simps
      truthy_def)

lemma modal_after_snoc:
  "modal_after h rs l (es @ [e]) = modal_change e (modal_after h rs l es)"
  by (simp add: modal_after_def)

lemma modal_after_sample_only_B:
  "modal_after sample_store [0, Suc 0, 2] [''A'', ''C''] [ToggleRepo 0, ToggleRepo 2, ToggleRepo (Suc 0)] =
     (sample_store,
      \<lparr>modal_repos = [0, Suc 0, 2], modal_lastSelectedRepos = [''A'', ''C''],
       selectedRepos = [Suc 0], checkbox = [False, True, False],
       allBranchesCheckbox = [False, False, False]\<rparr>)"
  using modal_after_sample_open
  by (simp add: modal_after_def sample_store_simps)

lemma modal_after_sample_only_B_all:
  "modal_after sample_store [0, Suc 0, 2] [''A'', ''C'']
     [ToggleRepo 0, ToggleRepo 2, ToggleRepo (Suc 0), ToggleAllBranches (Suc 0)] =
     (sample_store(Suc 0 := \<lparr>name = ''B'', path = ''/b'', allBranches = Some True\<rparr>),
      \<lparr>modal_repos = [0, Suc 0, 2], modal_lastSelectedRepos = [''A'', ''C''],
       selectedRepos = [Suc 0], checkbox = [False, True, False],
       allBranchesCheckbox = [False, True, False]\<rparr>)"
  using modal_after_snoc [of sample_store "[0, Suc 0, 2]" "[''A'', ''C'']"
      "[ToggleRepo 0, ToggleRepo 2, ToggleRepo (Suc 0)]" "ToggleAllBranches (Suc 0)"]
  by (simp add: modal_after_sample_only_B sample_store_simps)

lemma insertGitLog_date_daily:
  "matches_date_pattern d \<Longrightarrow> insertGitLog_date (Some d) u = Resolved (Some d)"
  by (simp add: insertGitLog_date_def isDailyNote_Some extractDateFromFileName_Some)

lemma sample_date: "matches_date_pattern ''2024-03-15''"
  by (simp add: matches_date_pattern_def is_digit_def)

lemma promptForRepos_modal_after:
  assumes "modal_after (heap s) (repos (settings s)) (lastSelectedRepos (settings s)) events = (h, m)"
  shows "promptForRepos events CloseModal s = (s\<lparr>heap := h\<rparr>, Pending)"
    and "saveData_ok s \<Longrightarrow> promptForRepos events ClickInsert s =
      (s\<lparr>heap := h,
         settings := (settings s)\<lparr>lastSelectedRepos := map (\<lambda>repo. name (h repo)) (selectedRepos m)\<rparr>,
         disk := Some (map h (repos (settings s)), map (\<lambda>repo. name (h repo)) (selectedRepos m))\<rparr>,
       Resolved (selectedRepos m))"
    and "\<not> saveData_ok s \<Longrightarrow> promptForRepos events ClickInsert s =
      (s\<lparr>heap := h,
         settings := (settings s)\<lparr>lastSelectedRepos := map (\<lambda>repo. name (h repo)) (selectedRepos m)\<rparr>\<rparr>,
       Pending)"
  using assms
  by (simp_all add: promptForRepos_def RepoSelectionModal_run_def saveSettings_def)

theorem single_repository_block_witness:
  "editor (fst (insertGitLog sample_shell (Some ''2024-03-15'') CloseDatePrompt
     [ToggleRepo 0, ToggleRepo 2, ToggleRepo 1] ClickInsert sample_state)) =
     [''>[!NOTE]- `git log` for B'' @ [CHR 0x0A] @ ''> ```'' @ [CHR 0x0A] @
      ''> abc123 fix bug'' @ [CHR 0x0A] @ ''> ```'' @ [CHR 0x0A] @ [CHR 0x0A]] \<and>
   editor (fst (insertGitLog sample_shell (Some ''2024-03-15'') CloseDatePrompt
     [ToggleRepo 0, ToggleRepo 2, ToggleRepo 1, ToggleAllBranches 1] ClickInsert sample_state)) =
     [''>[!NOTE]- `git log` for B (all branches)'' @ [CHR 0x0A] @ ''> ```'' @ [CHR 0x0A] @
      ''> abc123 fix bug'' @ [CHR 0x0A] @ ''> ```'' @ [CHR 0x0A] @ [CHR 0x0A]]"
proof -
  let ?d = "''2024-03-15''"
  let ?es = "[ToggleRepo 0, ToggleRepo 2, ToggleRepo (Suc 0)]"
  let ?es' = "[ToggleRepo 0, ToggleRepo 2, ToggleRepo (Suc 0), ToggleAllBranches (Suc 0)]"
  let ?h' = "sample_store(Suc 0 := \<lparr>name = ''B'', path = ''/b'', allBranches = Some True\<rparr>)"
  have st: "heap sample_state = sample_store" "repos (settings sample_state) = [0, Suc 0, 2]"
    "lastSelectedRepos (settings sample_state) = [''A'', ''C'']" "saveData_ok sample_state"
    "editor sample_state = []"
    by (simp_all add: sample_state_def)
  have d1: "insertGitLog_date (Some ?d) CloseDatePrompt = Resolved (Some ?d)"
    by (rule insertGitLog_date_daily [OF sample_date])
  have d2: "if_date (Some ?d) = Some ?d" by (simp add: if_date_def)
  obtain s1 where p1: "promptForRepos ?es ClickInsert sample_state = (s1, Resolved [Suc 0])"
    and h1: "heap s1 = sample_store"
    using promptForRepos_modal_after(2) [of sample_state ?es sample_store]
    by (simp add: st modal_after_sample_only_B)
  obtain s2 where p2: "promptForRepos ?es' ClickInsert sample_state = (s2, Resolved [Suc 0])"
    and h2: "heap s2 = ?h'"
    using promptForRepos_modal_after(2) [of sample_state ?es' ?h']
    by (simp add: st modal_after_sample_only_B_all)
  have q1: "fst (getGitLog sample_shell ?d (path (heap s1 (Suc 0))) (allBranches (heap s1 (Suc 0)))) =
      ''abc123 fix bug''"
    by (simp add: h1 sample_store_simps getGitLog_sample_b)
  have q2: "fst (getGitLog sample_shell ?d (path (heap s2 (Suc 0))) (allBranches (heap s2 (Suc 0)))) =
      ''abc123 fix bug''"
    by (simp add: h2 getGitLog_sample_b)
  from single_repository_block [OF d1 d2 p1 q1] single_repository_block [OF d1 d2 p2 q2]
  show ?thesis
    by (simp add: st h1 h2 sample_store_simps truthy_def)
qed

section \<open>Properties of the repository dialog\<close>








lemma RepoSelectionModal_run_CloseModal:
  "RepoSelectionModal_run h rs l events CloseModal = (fst (modal_after h rs l events), None)"
  by (simp add: RepoSelectionModal_run_def split: prod.splits)

lemma fold_modal_change_repos:
  "modal_repos (snd (fold modal_change events (h, m))) = modal_repos m"
proof (induction events arbitrary: h m)
  case Nil
  show ?case by simp
next
  case (Cons e es)
  obtain h1 m1 where s1: "modal_change e (h, m) = (h1, m1)"
    by (cases "modal_change e (h, m)")
  then have "modal_repos m1 = modal_repos m"
    by (cases e) (auto simp: Let_def split: if_splits)
  then show ?case by (simp add: s1 Cons.IH del: modal_change.simps)
qed

lemma modal_after_repos:
  "modal_repos (snd (modal_after h rs l events)) = rs"
  by (simp add: modal_after_def fold_modal_change_repos onOpen_def new_RepoSelectionModal_def)





section \<open>Properties of the command\<close>

lemma insertGitLog_date_prompt:
  "\<not> isDailyNote (Some (case basename of None \<Rightarrow> [] | Some b \<Rightarrow> b)) \<Longrightarrow>
     insertGitLog_date basename u = promptForDate u"
  by (simp add: insertGitLog_date_def)

lemma promptForRepos_CloseModal:
  "promptForRepos events CloseModal s =
     (s\<lparr>heap := fst (modal_after (heap s) (repos (settings s))
                        (lastSelectedRepos (settings s)) events)\<rparr>, Pending)"
  by (simp add: promptForRepos_def RepoSelectionModal_run_CloseModal)

text \<open>
  Claim C8. The loop over an empty selection yields the empty text, and the command
  does not run it: when the date is settled and the dialog is submitted with no
  repository selected, nothing is handed to the editor and the notice
  \<^verbatim>\<open>No repositories selected. Git log not inserted.\<close> is shown.
\<close>

theorem empty_selection_notice:
  assumes "insertGitLog_date basename date_action = Resolved date"
    and "if_date date = Some d"
    and "promptForRepos events fin s = (s1, Resolved [])"
  shows "fst (gitLog_loop execSync d' h [] ([], [])) = [] \<and>
         insertGitLog execSync basename date_action events fin s =
           (s1\<lparr>notices := notices s1 @ [''No repositories selected. Git log not inserted.'']\<rparr>,
            Resolved ()) \<and>
         editor (fst (insertGitLog execSync basename date_action events fin s)) = editor s \<and>
         notices (fst (insertGitLog execSync basename date_action events fin s)) =
           notices s @ [''No repositories selected. Git log not inserted.'']"
proof -
  from assms(3) have fr: "editor s1 = editor s" "notices s1 = notices s"
    using promptForRepos_frame by blast+
  show ?thesis
    by (simp add: insertGitLog_selected [OF assms] fr)
qed

lemma modal_after_sample_none:
  "modal_after sample_store [0, Suc 0, 2] [''A'', ''C''] [ToggleRepo 0, ToggleRepo 2] =
     (sample_store,
      \<lparr>modal_repos = [0, Suc 0, 2], modal_lastSelectedRepos = [''A'', ''C''],
       selectedRepos = [], checkbox = [False, False, False],
       allBranchesCheckbox = [False, False, False]\<rparr>)"
  using modal_after_sample_open
  by (simp add: modal_after_def sample_store_simps)

lemma sample_state_simps:
  "heap sample_state = sample_store" "repos (settings sample_state) = [0, Suc 0, 2]"
  "lastSelectedRepos (settings sample_state) = [''A'', ''C'']" "saveData_ok sample_state"
  "editor sample_state = []" "notices sample_state = []" "console sample_state = []"
  "disk sample_state = None"
  by (simp_all add: sample_state_def)

theorem empty_selection_notice_witness:
  "editor (fst (insertGitLog sample_shell (Some ''2024-03-15'') CloseDatePrompt
     [ToggleRepo 0, ToggleRepo 2] ClickInsert sample_state)) = [] \<and>
   notices (fst (insertGitLog sample_shell (Some ''2024-03-15'') CloseDatePrompt
     [ToggleRepo 0, ToggleRepo 2] ClickInsert sample_state)) =
     [''No repositories selected. Git log not inserted.'']"
proof -
  let ?d = "''2024-03-15''"
  have d1: "insertGitLog_date (Some ?d) CloseDatePrompt = Resolved (Some ?d)"
    by (rule insertGitLog_date_daily [OF sample_date])
  have d2: "if_date (Some ?d) = Some ?d" by (simp add: if_date_def)
  obtain s1 where p1: "promptForRepos [ToggleRepo 0, ToggleRepo 2] ClickInsert sample_state =
      (s1, Resolved [])"
    using promptForRepos_modal_after(2) [of sample_state "[ToggleRepo 0, ToggleRepo 2]" sample_store]
    by (simp add: sample_state_simps modal_after_sample_none)
  note t = empty_selection_notice [OF d1 d2 p1, of sample_shell ?d sample_store]
  from t [THEN conjunct2, THEN conjunct2, THEN conjunct1]
    t [THEN conjunct2, THEN conjunct2, THEN conjunct2]
  show ?thesis
    by (simp add: sample_state_simps)
qed

text \<open>
  Claim C6, as amended. Closing a dialog without its button never resolves the promise
  the command awaits: no empty selection and no absent date comes back, and the command
  stays suspended. So no notice is shown, nothing is handed to the editor and nothing is
  thrown. The notice \<^verbatim>\<open>No date provided. Git log not inserted.\<close> is shown when the date
  prompt is submitted with an empty value, and the notice
  \<^verbatim>\<open>No repositories selected. Git log not inserted.\<close> when the repository dialog is
  submitted with nothing selected.
\<close>

theorem closed_dialog_suspends:
  "promptForDate CloseDatePrompt = Pending \<and>
   snd (RepoSelectionModal_run h rs l events CloseModal) = None \<and>
   snd (promptForRepos events CloseModal s) = Pending \<and>
   (\<not> isDailyNote (Some (case basename of None \<Rightarrow> [] | Some b \<Rightarrow> b)) \<longrightarrow>
      insertGitLog execSync basename CloseDatePrompt events fin s = (s, Pending) \<and>
      insertGitLog execSync basename (ClickContinue []) events fin s =
        (s\<lparr>notices := notices s @ [''No date provided. Git log not inserted.'']\<rparr>,
         Resolved ())) \<and>
   (insertGitLog_date basename' date_action = Resolved date \<longrightarrow> if_date date = Some d \<longrightarrow>
      snd (insertGitLog execSync basename' date_action events CloseModal s) = Pending \<and>
      notices (fst (insertGitLog execSync basename' date_action events CloseModal s)) =
        notices s \<and>
      editor (fst (insertGitLog execSync basename' date_action events CloseModal s)) =
        editor s \<and>
      console (fst (insertGitLog execSync basename' date_action events CloseModal s)) =
        console s) \<and>
   (insertGitLog_date basename' date_action = Resolved date \<longrightarrow> if_date date = Some d \<longrightarrow>
    promptForRepos events' ClickInsert s = (s1, Resolved []) \<longrightarrow>
      insertGitLog execSync basename' date_action events' ClickInsert s =
        (s1\<lparr>notices := notices s @ [''No repositories selected. Git log not inserted.'']\<rparr>,
         Resolved ()))"
proof (intro conjI impI)
  show "promptForDate CloseDatePrompt = Pending"
    by (simp add: promptForDate_def)
  show "snd (RepoSelectionModal_run h rs l events CloseModal) = None"
    by (simp add: RepoSelectionModal_run_CloseModal)
  show "snd (promptForRepos events CloseModal s) = Pending"
    by (simp add: promptForRepos_CloseModal)
next
  assume nd: "\<not> isDailyNote (Some (case basename of None \<Rightarrow> [] | Some b \<Rightarrow> b))"
  show "insertGitLog execSync basename CloseDatePrompt events fin s = (s, Pending)"
    by (simp add: insertGitLog_def insertGitLog_date_prompt [OF nd] promptForDate_def)
  show "insertGitLog execSync basename (ClickContinue []) events fin s =
      (s\<lparr>notices := notices s @ [''No date provided. Git log not inserted.'']\<rparr>, Resolved ())"
    by (simp add: insertGitLog_def insertGitLog_date_prompt [OF nd] promptForDate_def
        if_date_def)
next
  assume d: "insertGitLog_date basename' date_action = Resolved date" "if_date date = Some d"
  have eq: "insertGitLog execSync basename' date_action events CloseModal s =
      (fst (promptForRepos events CloseModal s), Pending)"
    by (simp add: insertGitLog_def d promptForRepos_CloseModal)
  show "snd (insertGitLog execSync basename' date_action events CloseModal s) = Pending"
    by (simp add: eq)
  show "notices (fst (insertGitLog execSync basename' date_action events CloseModal s)) =
      notices s"
    by (simp add: eq promptForRepos_CloseModal)
  show "editor (fst (insertGitLog execSync basename' date_action events CloseModal s)) =
      editor s"
    by (simp add: eq promptForRepos_CloseModal)
  show "console (fst (insertGitLog execSync basename' date_action events CloseModal s)) =
      console s"
    by (simp add: eq promptForRepos_CloseModal)
next
  assume d: "insertGitLog_date basename' date_action = Resolved date" "if_date date = Some d"
    and p: "promptForRepos events' ClickInsert s = (s1, Resolved [])"
  from p have "notices s1 = notices s"
    using promptForRepos_frame by blast
  then show "insertGitLog execSync basename' date_action events' ClickInsert s =
      (s1\<lparr>notices := notices s @ [''No repositories selected. Git log not inserted.'']\<rparr>,
       Resolved ())"
    by (simp add: insertGitLog_selected [OF d p])
qed

lemma sample_not_daily: "\<not> isDailyNote (Some ''notes'')"
  by (simp add: isDailyNote_Some matches_date_pattern_def)

text \<open>
  The claim as stated fails: after either dialog is closed no notice is shown, and the
  promise of the command stays pending.
\<close>

theorem closed_dialog_no_notice:
  "insertGitLog sample_shell (Some ''notes'') CloseDatePrompt [] ClickInsert sample_state =
     (sample_state, Pending) \<and>
   notices sample_state = [] \<and>
   snd (insertGitLog sample_shell (Some ''2024-03-15'') CloseDatePrompt [] CloseModal
     sample_state) = Pending \<and>
   notices (fst (insertGitLog sample_shell (Some ''2024-03-15'') CloseDatePrompt [] CloseModal
     sample_state)) = []"
proof -
  let ?d = "''2024-03-15''"
  have d1: "insertGitLog_date (Some ?d) CloseDatePrompt = Resolved (Some ?d)"
    by (rule insertGitLog_date_daily [OF sample_date])
  have d2: "if_date (Some ?d) = Some ?d" by (simp add: if_date_def)
  have a: "insertGitLog sample_shell (Some ''notes'') CloseDatePrompt [] ClickInsert sample_state =
     (sample_state, Pending)"
    using sample_not_daily
    by (simp add: insertGitLog_def insertGitLog_date_def promptForDate_def)
  have b: "insertGitLog sample_shell (Some ?d) CloseDatePrompt [] CloseModal sample_state =
      (fst (promptForRepos [] CloseModal sample_state), Pending)"
    by (simp add: insertGitLog_def d1 d2 promptForRepos_CloseModal)
  show ?thesis
    by (simp add: a b promptForRepos_CloseModal sample_state_simps)
qed

theorem closed_dialog_suspends_witness:
  "insertGitLog sample_shell (Some ''notes'') CloseDatePrompt [ToggleRepo 1] ClickInsert
     sample_state = (sample_state, Pending) \<and>
   insertGitLog sample_shell (Some ''notes'') (ClickContinue []) [ToggleRepo 1] ClickInsert
     sample_state =
     (sample_state\<lparr>notices := [''No date provided. Git log not inserted.'']\<rparr>, Resolved ()) \<and>
   snd (insertGitLog sample_shell (Some ''2024-03-15'') CloseDatePrompt [ToggleRepo 1]
     CloseModal sample_state) = Pending \<and>
   notices (fst (insertGitLog sample_shell (Some ''2024-03-15'') CloseDatePrompt [ToggleRepo 1]
     CloseModal sample_state)) = [] \<and>
   editor (fst (insertGitLog sample_shell (Some ''2024-03-15'') CloseDatePrompt [ToggleRepo 1]
     CloseModal sample_state)) = [] \<and>
   notices (fst (insertGitLog sample_shell (Some ''2024-03-15'') CloseDatePrompt
     [ToggleRepo 0, ToggleRepo 2] ClickInsert sample_state)) =
     [''No repositories selected. Git log not inserted.'']"
proof -
  let ?d = "''2024-03-15''"
  have d1: "insertGitLog_date (Some ?d) CloseDatePrompt = Resolved (Some ?d)"
    by (rule insertGitLog_date_daily [OF sample_date])
  have d2: "if_date (Some ?d) = Some ?d" by (simp add: if_date_def)
  have nd: "\<not> isDailyNote (Some (case Some ''notes'' of None \<Rightarrow> [] | Some b \<Rightarrow> b))"
    using sample_not_daily by simp
  obtain s1 where p1: "promptForRepos [ToggleRepo 0, ToggleRepo 2] ClickInsert sample_state =
      (s1, Resolved [])"
    using promptForRepos_modal_after(2) [of sample_state "[ToggleRepo 0, ToggleRepo 2]" sample_store]
    by (simp add: sample_state_simps modal_after_sample_none)
  note t = closed_dialog_suspends [of sample_store "[]" "[]" "[ToggleRepo (Suc 0)]"
      sample_state "Some ''notes''" sample_shell ClickInsert "Some ?d" CloseDatePrompt
      "Some ?d" ?d "[ToggleRepo 0, ToggleRepo 2]" s1,
      THEN conjunct2, THEN conjunct2, THEN conjunct2]
  note a = t [THEN conjunct1, rule_format, OF nd]
  note b = t [THEN conjunct2, THEN conjunct1, rule_format, OF d1 d2]
  note c = t [THEN conjunct2, THEN conjunct2, rule_format, OF d1 d2 p1]
  from a b c show ?thesis
    by (simp add: sample_state_simps)
qed

lemma modal_change_names:
  "modal_change e (h, m) = (h', m') \<Longrightarrow>
     name (h' r) = name (h r) \<and> path (h' r) = path (h r)"
  by (cases e) (auto simp: Let_def split: if_splits)

lemma fold_modal_change_names:
  "fold modal_change events (h, m) = (h', m') \<Longrightarrow>
     name (h' r) = name (h r) \<and> path (h' r) = path (h r)"
proof (induction events arbitrary: h m)
  case Nil
  then show ?case by simp
next
  case (Cons e es)
  obtain h1 m1 where s1: "modal_change e (h, m) = (h1, m1)"
    by (cases "modal_change e (h, m)")
  from Cons.prems have "fold modal_change es (h1, m1) = (h', m')"
    by (simp add: s1)
  then have "name (h' r) = name (h1 r) \<and> path (h' r) = path (h1 r)"
    by (rule Cons.IH)
  with modal_change_names [OF s1, of r] show ?case by simp
qed

lemma modal_after_names:
  "name (fst (modal_after h rs l events) r) = name (h r) \<and>
   path (fst (modal_after h rs l events) r) = path (h r)"
proof -
  obtain h' m' where "modal_after h rs l events = (h', m')"
    by (cases "modal_after h rs l events")
  then show ?thesis
    using fold_modal_change_names [of events h _ h' m' r]
    by (simp add: modal_after_def)
qed

lemma fold_ToggleRepo_heap:
  "fst (fold modal_change (map ToggleRepo is) (h, m)) = h"
proof (induction "is" arbitrary: m)
  case Nil
  show ?case by simp
next
  case (Cons i "is")
  have "fst (modal_change (ToggleRepo i) (h, m)) = h"
    by (simp add: Let_def)
  then obtain m1 where "modal_change (ToggleRepo i) (h, m) = (h, m1)"
    by (cases "modal_change (ToggleRepo i) (h, m)") simp
  then show ?case by (simp add: Cons.IH del: modal_change.simps)
qed

lemma promptForRepos_heap:
  "heap (fst (promptForRepos events fin s)) =
     fst (modal_after (heap s) (repos (settings s)) (lastSelectedRepos (settings s)) events)"
  by (cases fin)
     (auto simp: promptForRepos_def RepoSelectionModal_run_def saveSettings_def Let_def
       split: prod.splits option.splits)

lemma modal_change_flags:
  assumes d: "distinct rs"
    and inv: "modal_repos m = rs" "length (allBranchesCheckbox m) = length rs"
      "\<And>j. j < length rs \<Longrightarrow> allBranchesCheckbox m ! j = truthy (allBranches (h (rs ! j)))"
    and step: "modal_change e (h, m) = (h', m')"
  shows "modal_repos m' = rs \<and> length (allBranchesCheckbox m') = length rs \<and>
         (\<forall>j. j < length rs \<longrightarrow>
            allBranchesCheckbox m' ! j = truthy (allBranches (h' (rs ! j))))"
proof (cases e)
  case (ToggleRepo i)
  with inv step show ?thesis
    by (auto simp: Let_def split: if_splits)
next
  case (ToggleAllBranches i)
  show ?thesis
  proof (cases "i < length rs")
    case False
    with inv step ToggleAllBranches show ?thesis by auto
  next
    case True
    from step ToggleAllBranches True inv(1)
    have h': "h' = h(rs ! i := (h (rs ! i))\<lparr>allBranches := Some (\<not> allBranchesCheckbox m ! i)\<rparr>)"
      and m': "m' = m\<lparr>allBranchesCheckbox :=
                       (allBranchesCheckbox m)[i := \<not> allBranchesCheckbox m ! i]\<rparr>"
      by (auto simp: Let_def)
    have "allBranchesCheckbox m' ! j = truthy (allBranches (h' (rs ! j)))"
      if j: "j < length rs" for j
    proof (cases "j = i")
      case True
      with j inv(2) show ?thesis by (simp add: h' m' truthy_def)
    next
      case False
      with d j \<open>i < length rs\<close> have "rs ! j \<noteq> rs ! i"
        by (simp add: nth_eq_iff_index_eq)
      with False j inv(3) [OF j] show ?thesis by (simp add: h' m')
    qed
    with inv show ?thesis by (simp add: m')
  qed
qed

lemma fold_modal_change_flags:
  assumes d: "distinct rs"
  shows "modal_repos m = rs \<Longrightarrow> length (allBranchesCheckbox m) = length rs \<Longrightarrow>
     (\<forall>j. j < length rs \<longrightarrow> allBranchesCheckbox m ! j = truthy (allBranches (h (rs ! j)))) \<Longrightarrow>
     fold modal_change events (h, m) = (h', m') \<Longrightarrow>
     (\<forall>j. j < length rs \<longrightarrow> allBranchesCheckbox m' ! j = truthy (allBranches (h' (rs ! j))))"
proof (induction events arbitrary: h m)
  case Nil
  then show ?case by simp
next
  case (Cons e es)
  obtain h1 m1 where s1: "modal_change e (h, m) = (h1, m1)"
    by (cases "modal_change e (h, m)")
  from Cons.prems(3) have a: "\<And>j. j < length rs \<Longrightarrow>
      allBranchesCheckbox m ! j = truthy (allBranches (h (rs ! j)))"
    by blast
  note st = modal_change_flags [OF d Cons.prems(1,2) a s1]
  from Cons.prems(4) have "fold modal_change es (h1, m1) = (h', m')"
    by (simp add: s1)
  with st show ?case
    using Cons.IH [of m1 h1] by blast
qed

lemma modal_after_flags:
  assumes "distinct rs" and "i < length rs"
  shows "allBranchesCheckbox (snd (modal_after h rs l events)) ! i =
     truthy (allBranches (fst (modal_after h rs l events) (rs ! i)))"
proof -
  obtain h' m' where hm: "modal_after h rs l events = (h', m')"
    by (cases "modal_after h rs l events")
  then have f: "fold modal_change events (h, onOpen h (new_RepoSelectionModal h rs l)) = (h', m')"
    by (simp add: modal_after_def)
  have "\<forall>j. j < length rs \<longrightarrow> allBranchesCheckbox m' ! j = truthy (allBranches (h' (rs ! j)))"
    by (rule fold_modal_change_flags [OF assms(1) _ _ _ f])
       (simp_all add: onOpen_def new_RepoSelectionModal_def)
  with assms(2) show ?thesis by (simp add: hm)
qed

lemma modal_after_ToggleRepo_heap:
  "fst (modal_after h rs l (events @ [ToggleRepo i])) = fst (modal_after h rs l events)"
  by (cases "modal_after h rs l events") (simp add: modal_after_snoc Let_def)

lemma modal_after_ToggleAllBranches:
  assumes "i < length rs"
  shows "fst (modal_after h rs l (events @ [ToggleAllBranches i])) =
     (fst (modal_after h rs l events))(rs ! i :=
        (fst (modal_after h rs l events) (rs ! i))
          \<lparr>allBranches := Some (\<not> allBranchesCheckbox (snd (modal_after h rs l events)) ! i)\<rparr>)"
proof -
  obtain h' m' where hm: "modal_after h rs l events = (h', m')"
    by (cases "modal_after h rs l events")
  have "modal_repos m' = rs"
    using modal_after_repos [of h rs l events] by (simp add: hm)
  with assms show ?thesis
    by (simp add: modal_after_snoc hm Let_def)
qed


text \<open>
  Claim C7, as amended. Toggling a repository's all-branches checkbox writes the
  \<^verbatim>\<open>allBranches\<close> field of that repository object in the in-memory settings at once, not
  at submission: after any change events, one more toggle of the checkbox of row \<open>i\<close>
  sets the field of that repository to the new state of the checkbox, which (no
  repository being listed twice) is the negation of the flag stored before, and the
  store is the same whether the dialog is then submitted or closed. Closing the dialog
  without submitting leaves \<^verbatim>\<open>this.settings\<close> (the
  array of repositories and the last selection), the saved blob and every repository's
  name and path as they were, but keeps the flags written. Toggles of the selection
  checkboxes write no repository object. Only a submission stores the names of the
  result as the last selection and saves the settings.
\<close>

theorem all_branches_written_at_once:
  "(i < length (repos (settings s)) \<longrightarrow>
      heap (fst (promptForRepos [ToggleAllBranches i] CloseModal s)) =
        (heap s)(repos (settings s) ! i :=
           (heap s (repos (settings s) ! i))
             \<lparr>allBranches := Some (\<not> truthy (allBranches (heap s (repos (settings s) ! i))))\<rparr>)) \<and>
   settings (fst (promptForRepos events CloseModal s)) = settings s \<and>
   disk (fst (promptForRepos events CloseModal s)) = disk s \<and>
   name (heap (fst (promptForRepos events fin s)) r) = name (heap s r) \<and>
   path (heap (fst (promptForRepos events fin s)) r) = path (heap s r) \<and>
   heap (fst (promptForRepos (map ToggleRepo is) fin s)) = heap s \<and>
   (promptForRepos events ClickInsert s = (s1, Resolved result) \<longrightarrow>
      lastSelectedRepos (settings s1) = map (\<lambda>repo. name (heap s1 repo)) result \<and>
      disk s1 = Some (map (heap s1) (repos (settings s1)), lastSelectedRepos (settings s1))) \<and>
   (i < length (repos (settings s)) \<longrightarrow>
      heap (fst (promptForRepos (events @ [ToggleAllBranches i]) fin s)) =
        (heap (fst (promptForRepos events fin s)))(repos (settings s) ! i :=
           (heap (fst (promptForRepos events fin s)) (repos (settings s) ! i))
             \<lparr>allBranches :=
                Some (\<not> allBranchesCheckbox
                          (snd (modal_after (heap s) (repos (settings s))
                                  (lastSelectedRepos (settings s)) events)) ! i)\<rparr>)) \<and>
   (distinct (repos (settings s)) \<longrightarrow> i < length (repos (settings s)) \<longrightarrow>
      allBranchesCheckbox
        (snd (modal_after (heap s) (repos (settings s))
                (lastSelectedRepos (settings s)) events)) ! i =
        truthy (allBranches (heap (fst (promptForRepos events fin s)) (repos (settings s) ! i))) \<and>
      heap (fst (promptForRepos (events @ [ToggleAllBranches i]) fin s)) =
        (heap (fst (promptForRepos events fin s)))(repos (settings s) ! i :=
           (heap (fst (promptForRepos events fin s)) (repos (settings s) ! i))
             \<lparr>allBranches :=
                Some (\<not> truthy (allBranches
                  (heap (fst (promptForRepos events fin s)) (repos (settings s) ! i))))\<rparr>))"
proof (intro conjI impI)
  assume "i < length (repos (settings s))"
  then show "heap (fst (promptForRepos [ToggleAllBranches i] CloseModal s)) =
        (heap s)(repos (settings s) ! i :=
           (heap s (repos (settings s) ! i))
             \<lparr>allBranches := Some (\<not> truthy (allBranches (heap s (repos (settings s) ! i))))\<rparr>)"
    by (simp add: promptForRepos_CloseModal modal_after_def onOpen_def
        new_RepoSelectionModal_def Let_def)
next
  show "settings (fst (promptForRepos events CloseModal s)) = settings s"
    by (simp add: promptForRepos_CloseModal)
  show "disk (fst (promptForRepos events CloseModal s)) = disk s"
    by (simp add: promptForRepos_CloseModal)
  show "name (heap (fst (promptForRepos events fin s)) r) = name (heap s r)"
    by (simp add: promptForRepos_heap modal_after_names)
  show "path (heap (fst (promptForRepos events fin s)) r) = path (heap s r)"
    by (simp add: promptForRepos_heap modal_after_names)
  show "heap (fst (promptForRepos (map ToggleRepo is) fin s)) = heap s"
    by (simp add: promptForRepos_heap modal_after_def fold_ToggleRepo_heap)
next
  assume p: "promptForRepos events ClickInsert s = (s1, Resolved result)"
  then show "lastSelectedRepos (settings s1) = map (\<lambda>repo. name (heap s1 repo)) result"
    by (auto simp: promptForRepos_def saveSettings_def Let_def
        split: prod.splits option.splits if_splits)
  from p show "disk s1 = Some (map (heap s1) (repos (settings s1)), lastSelectedRepos (settings s1))"
    by (auto simp: promptForRepos_def saveSettings_def Let_def
        split: prod.splits option.splits if_splits)
next
  assume i: "i < length (repos (settings s))"
  show "heap (fst (promptForRepos (events @ [ToggleAllBranches i]) fin s)) =
        (heap (fst (promptForRepos events fin s)))(repos (settings s) ! i :=
           (heap (fst (promptForRepos events fin s)) (repos (settings s) ! i))
             \<lparr>allBranches :=
                Some (\<not> allBranchesCheckbox
                          (snd (modal_after (heap s) (repos (settings s))
                                  (lastSelectedRepos (settings s)) events)) ! i)\<rparr>)"
    by (simp only: promptForRepos_heap modal_after_ToggleAllBranches [OF i])
next
  assume d: "distinct (repos (settings s))" and i: "i < length (repos (settings s))"
  show fl: "allBranchesCheckbox
        (snd (modal_after (heap s) (repos (settings s))
                (lastSelectedRepos (settings s)) events)) ! i =
        truthy (allBranches (heap (fst (promptForRepos events fin s)) (repos (settings s) ! i)))"
    by (simp only: promptForRepos_heap modal_after_flags [OF d i])
  show "heap (fst (promptForRepos (events @ [ToggleAllBranches i]) fin s)) =
        (heap (fst (promptForRepos events fin s)))(repos (settings s) ! i :=
           (heap (fst (promptForRepos events fin s)) (repos (settings s) ! i))
             \<lparr>allBranches :=
                Some (\<not> truthy (allBranches
                  (heap (fst (promptForRepos events fin s)) (repos (settings s) ! i))))\<rparr>)"
    by (simp only: promptForRepos_heap modal_after_ToggleAllBranches [OF i]
        modal_after_flags [OF d i])
qed

text \<open>
  The claim as stated fails: after the all-branches checkbox of \<open>A\<close> is toggled and the
  dialog is closed without submitting, the repository object of the in-memory settings
  has the flag set.
\<close>

theorem all_branches_survives_cancel:
  "allBranches (heap sample_state (repos (settings sample_state) ! 0)) = None \<and>
   snd (promptForRepos [ToggleAllBranches 0] CloseModal sample_state) = Pending \<and>
   allBranches (heap (fst (promptForRepos [ToggleAllBranches 0] CloseModal sample_state))
     (repos (settings sample_state) ! 0)) = Some True"
  by (simp add: promptForRepos_CloseModal modal_after_def onOpen_def
      new_RepoSelectionModal_def Let_def sample_state_simps sample_store_simps truthy_def)

theorem all_branches_written_at_once_witness:
  "heap (fst (promptForRepos [ToggleAllBranches 0] CloseModal sample_state)) =
     sample_store(0 := \<lparr>name = ''A'', path = ''/a'', allBranches = Some True\<rparr>) \<and>
   heap (fst (promptForRepos [ToggleAllBranches 0, ToggleAllBranches 0] CloseModal
     sample_state)) =
     sample_store(0 := \<lparr>name = ''A'', path = ''/a'', allBranches = Some False\<rparr>) \<and>
   heap (fst (promptForRepos [ToggleAllBranches 0, ToggleRepo 1, ToggleAllBranches 0]
     CloseModal sample_state)) =
     sample_store(0 := \<lparr>name = ''A'', path = ''/a'', allBranches = Some False\<rparr>) \<and>
   settings (fst (promptForRepos [ToggleRepo 0, ToggleRepo 2, ToggleRepo 1] CloseModal
     sample_state)) = settings sample_state \<and>
   (\<exists>s1. promptForRepos [ToggleRepo 0, ToggleRepo 2, ToggleRepo 1] ClickInsert sample_state =
       (s1, Resolved [1]) \<and>
     lastSelectedRepos (settings s1) = [''B''] \<and>
     disk s1 = Some ([\<lparr>name = ''A'', path = ''/a'', allBranches = None\<rparr>,
                      \<lparr>name = ''B'', path = ''/b'', allBranches = None\<rparr>,
                      \<lparr>name = ''C'', path = ''/c'', allBranches = None\<rparr>], [''B'']))"
proof -
  let ?es = "[ToggleRepo 0, ToggleRepo 2, ToggleRepo (Suc 0)]"
  let ?A = "\<lambda>b. sample_store(0 := \<lparr>name = ''A'', path = ''/a'', allBranches = Some b\<rparr>)"
  have i: "0 < length (repos (settings sample_state))"
    and d: "distinct (repos (settings sample_state))"
    by (simp_all add: sample_state_simps)
  obtain s1 where p1: "promptForRepos ?es ClickInsert sample_state = (s1, Resolved [Suc 0])"
    and h1: "heap s1 = sample_store" and r1: "repos (settings s1) = [0, Suc 0, 2]"
    using promptForRepos_modal_after(2) [of sample_state ?es sample_store]
    by (simp add: sample_state_simps modal_after_sample_only_B)
  note t = all_branches_written_at_once [of 0 sample_state ?es ClickInsert 0 "[]" s1 "[Suc 0]"]
  note a = t [THEN conjunct1, rule_format, OF i]
  note b = t [THEN conjunct2, THEN conjunct1]
  note c = t [THEN conjunct2, THEN conjunct2, THEN conjunct2, THEN conjunct2, THEN conjunct2,
      THEN conjunct2, THEN conjunct1, rule_format, OF p1]
  note last = all_branches_written_at_once [where i = 0 and s = sample_state
      and fin = CloseModal, THEN conjunct2, THEN conjunct2, THEN conjunct2, THEN conjunct2,
      THEN conjunct2, THEN conjunct2, THEN conjunct2, THEN conjunct2, rule_format, OF d i,
      THEN conjunct2]
  from c have c': "lastSelectedRepos (settings s1) = [''B'']"
    "disk s1 = Some ([\<lparr>name = ''A'', path = ''/a'', allBranches = None\<rparr>,
                      \<lparr>name = ''B'', path = ''/b'', allBranches = None\<rparr>,
                      \<lparr>name = ''C'', path = ''/c'', allBranches = None\<rparr>], [''B''])"
    by (simp_all add: h1 r1 sample_store_simps)
  have one: "heap (fst (promptForRepos [ToggleAllBranches 0] CloseModal sample_state)) = ?A True"
    using a by (simp add: sample_state_simps sample_store_simps truthy_def)
  have two: "heap (fst (promptForRepos [ToggleAllBranches 0, ToggleAllBranches 0] CloseModal
      sample_state)) = ?A False"
    using last [of "[ToggleAllBranches 0]"]
    by (simp add: one sample_state_simps truthy_def)
  have mid: "heap (fst (promptForRepos [ToggleAllBranches 0, ToggleRepo (Suc 0)] CloseModal
      sample_state)) = ?A True"
    using one modal_after_ToggleRepo_heap [of "heap sample_state" "repos (settings sample_state)"
        "lastSelectedRepos (settings sample_state)" "[ToggleAllBranches 0]" "Suc 0"]
    by (simp add: promptForRepos_heap)
  have three: "heap (fst (promptForRepos
      [ToggleAllBranches 0, ToggleRepo (Suc 0), ToggleAllBranches 0] CloseModal
      sample_state)) = ?A False"
    using last [of "[ToggleAllBranches 0, ToggleRepo (Suc 0)]"]
    by (simp add: mid sample_state_simps truthy_def)
  have "settings (fst (promptForRepos ?es CloseModal sample_state)) =
      settings sample_state"
    using b by simp
  with one two three show ?thesis
    using p1 c' by simp
qed

text \<open>
  Claim C4. \<^verbatim>\<open>getGitLog\<close> is a total function to strings: whatever error \<^verbatim>\<open>execSync\<close>
  throws, the result is the literal \<^verbatim>\<open>Error: Unable to retrieve git log.\<close> (the error goes
  to the console only), and when the query succeeds with nothing but white space on its
  output the result is the literal \<^verbatim>\<open>No commits found for the specified date.\<close> A failure
  for one selected repository puts the error literal into that repository's block, and
  the blocks of the repositories before and after it are what they are without it: the
  command still hands the editor one text, made of the block of every selected
  repository in the order of the selection, shows no notice and completes.
\<close>

theorem getGitLog_never_raises:
  "(execSync (getGitLog_command date repoPath (truthy ab)) = Inl e \<longrightarrow>
      getGitLog execSync date repoPath ab = (''Error: Unable to retrieve git log.'', [e])) \<and>
   (execSync (getGitLog_command date repoPath (truthy ab)) = Inr out \<longrightarrow>
    list_all is_white_space out \<longrightarrow>
      getGitLog execSync date repoPath ab = (''No commits found for the specified date.'', [])) \<and>
   (execSync (getGitLog_command date (path (h r)) (truthy (allBranches (h r)))) = Inl e \<longrightarrow>
      fst (gitLog_loop execSync date h (xs @ r # ys) ([], [])) =
        fst (gitLog_loop execSync date h xs ([], [])) @
        formatBlock (name (h r)) (truthy (allBranches (h r)))
          ''Error: Unable to retrieve git log.'' @
        fst (gitLog_loop execSync date h ys ([], []))) \<and>
   (insertGitLog_date basename date_action = Resolved resolved \<longrightarrow>
    if_date resolved = Some date \<longrightarrow>
    promptForRepos events fin s = (s1, Resolved (xs @ r # ys)) \<longrightarrow>
    execSync (getGitLog_command date (path (heap s1 r)) (truthy (allBranches (heap s1 r)))) =
      Inl e \<longrightarrow>
      editor (fst (insertGitLog execSync basename date_action events fin s)) =
        editor s @
        [concat (map (\<lambda>q. formatBlock (name (heap s1 q)) (truthy (allBranches (heap s1 q)))
                   (fst (getGitLog execSync date (path (heap s1 q)) (allBranches (heap s1 q)))))
           xs) @
         formatBlock (name (heap s1 r)) (truthy (allBranches (heap s1 r)))
           ''Error: Unable to retrieve git log.'' @
         concat (map (\<lambda>q. formatBlock (name (heap s1 q)) (truthy (allBranches (heap s1 q)))
                   (fst (getGitLog execSync date (path (heap s1 q)) (allBranches (heap s1 q)))))
           ys)] \<and>
      notices (fst (insertGitLog execSync basename date_action events fin s)) = notices s \<and>
      snd (insertGitLog execSync basename date_action events fin s) = Resolved ())"
proof (intro conjI impI)
  assume "execSync (getGitLog_command date repoPath (truthy ab)) = Inl e"
  then show "getGitLog execSync date repoPath ab = (''Error: Unable to retrieve git log.'', [e])"
    by (simp add: getGitLog_def truthy_def)
next
  assume "execSync (getGitLog_command date repoPath (truthy ab)) = Inr out"
    and "list_all is_white_space out"
  then show "getGitLog execSync date repoPath ab =
      (''No commits found for the specified date.'', [])"
    by (simp add: getGitLog_def truthy_def trim_Nil_iff)
next
  assume "execSync (getGitLog_command date (path (h r)) (truthy (allBranches (h r)))) = Inl e"
  then have "fst (getGitLog execSync date (path (h r)) (allBranches (h r))) =
      ''Error: Unable to retrieve git log.''"
    by (simp add: getGitLog_def truthy_def)
  then show "fst (gitLog_loop execSync date h (xs @ r # ys) ([], [])) =
        fst (gitLog_loop execSync date h xs ([], [])) @
        formatBlock (name (h r)) (truthy (allBranches (h r)))
          ''Error: Unable to retrieve git log.'' @
        fst (gitLog_loop execSync date h ys ([], []))"
    by (simp add: gitLog_loop_acc)
next
  assume d: "insertGitLog_date basename date_action = Resolved resolved"
      "if_date resolved = Some date"
    and p: "promptForRepos events fin s = (s1, Resolved (xs @ r # ys))"
    and f: "execSync (getGitLog_command date (path (heap s1 r))
              (truthy (allBranches (heap s1 r)))) = Inl e"
  from f have err: "fst (getGitLog execSync date (path (heap s1 r)) (allBranches (heap s1 r))) =
      ''Error: Unable to retrieve git log.''"
    by (simp add: getGitLog_def truthy_def)
  from p have fr: "editor s1 = editor s" "notices s1 = notices s"
    using promptForRepos_frame by blast+
  note run = insertGitLog_selected [OF d p, of execSync]
  show "editor (fst (insertGitLog execSync basename date_action events fin s)) =
        editor s @
        [concat (map (\<lambda>q. formatBlock (name (heap s1 q)) (truthy (allBranches (heap s1 q)))
                   (fst (getGitLog execSync date (path (heap s1 q)) (allBranches (heap s1 q)))))
           xs) @
         formatBlock (name (heap s1 r)) (truthy (allBranches (heap s1 r)))
           ''Error: Unable to retrieve git log.'' @
         concat (map (\<lambda>q. formatBlock (name (heap s1 q)) (truthy (allBranches (heap s1 q)))
                   (fst (getGitLog execSync date (path (heap s1 q)) (allBranches (heap s1 q)))))
           ys)]"
    by (simp add: run gitLog_loop_acc err fr)
  show "notices (fst (insertGitLog execSync basename date_action events fin s)) = notices s"
    by (simp add: run fr)
  show "snd (insertGitLog execSync basename date_action events fin s) = Resolved ()"
    by (simp add: run)
qed

lemma modal_after_sample_C_A_B:
  "modal_after sample_store [0, Suc 0, 2] [''A'', ''C'']
     [ToggleRepo 0, ToggleRepo 0, ToggleRepo (Suc 0)] =
     (sample_store,
      \<lparr>modal_repos = [0, Suc 0, 2], modal_lastSelectedRepos = [''A'', ''C''],
       selectedRepos = [2, 0, Suc 0], checkbox = [True, True, True],
       allBranchesCheckbox = [False, False, False]\<rparr>)"
  using modal_after_sample_open
  by (simp add: modal_after_def sample_store_simps)

theorem getGitLog_never_raises_witness:
  "getGitLog sample_shell ''2024-03-15'' ''/a'' None =
     (''Error: Unable to retrieve git log.'', [NonZeroExit 128]) \<and>
   getGitLog sample_shell ''2024-03-15'' ''/c'' None =
     (''No commits found for the specified date.'', []) \<and>
   fst (gitLog_loop sample_shell ''2024-03-15'' sample_store [0, 1, 2] ([], [])) =
     formatBlock ''A'' False ''Error: Unable to retrieve git log.'' @
     formatBlock ''B'' False ''abc123 fix bug'' @
     formatBlock ''C'' False ''No commits found for the specified date.'' \<and>
   editor (fst (insertGitLog sample_shell (Some ''2024-03-15'') CloseDatePrompt
     [ToggleRepo 0, ToggleRepo 0, ToggleRepo 1] ClickInsert sample_state)) =
     [formatBlock ''C'' False ''No commits found for the specified date.'' @
      formatBlock ''A'' False ''Error: Unable to retrieve git log.'' @
      formatBlock ''B'' False ''abc123 fix bug''] \<and>
   notices (fst (insertGitLog sample_shell (Some ''2024-03-15'') CloseDatePrompt
     [ToggleRepo 0, ToggleRepo 0, ToggleRepo 1] ClickInsert sample_state)) = [] \<and>
   snd (insertGitLog sample_shell (Some ''2024-03-15'') CloseDatePrompt
     [ToggleRepo 0, ToggleRepo 0, ToggleRepo 1] ClickInsert sample_state) = Resolved ()"
proof -
  let ?d = "''2024-03-15''"
  let ?es = "[ToggleRepo 0, ToggleRepo 0, ToggleRepo (Suc 0)]"
  have a: "sample_shell (getGitLog_command ?d ''/a'' (truthy None)) = Inl (NonZeroExit 128)"
    by (simp add: truthy_def sample_shell_a)
  have c: "sample_shell (getGitLog_command ?d ''/c'' (truthy None)) = Inr []"
    by (simp add: truthy_def sample_shell_c)
  have gc: "getGitLog sample_shell ?d ''/c'' None =
      (''No commits found for the specified date.'', [])"
    by (simp add: getGitLog_def sample_shell_c trim_def)
  have rest: "fst (gitLog_loop sample_shell ?d sample_store [Suc 0, 2] ([], [])) =
     formatBlock ''B'' False ''abc123 fix bug'' @
     formatBlock ''C'' False ''No commits found for the specified date.''"
    by (simp add: gitLog_loop_acc sample_store_simps truthy_def getGitLog_sample_b gc)
  have a0: "sample_shell (getGitLog_command ?d (path (sample_store 0))
      (truthy (allBranches (sample_store 0)))) = Inl (NonZeroExit 128)"
    by (simp add: sample_store_simps truthy_def sample_shell_a)
  have d1: "insertGitLog_date (Some ?d) CloseDatePrompt = Resolved (Some ?d)"
    by (rule insertGitLog_date_daily [OF sample_date])
  have d2: "if_date (Some ?d) = Some ?d" by (simp add: if_date_def)
  obtain s1 where p1: "promptForRepos ?es ClickInsert sample_state =
      (s1, Resolved ([2] @ 0 # [Suc 0]))"
    and h1: "heap s1 = sample_store"
    using promptForRepos_modal_after(2) [of sample_state ?es sample_store]
    by (simp add: sample_state_simps modal_after_sample_C_A_B)
  have a1: "sample_shell (getGitLog_command ?d (path (heap s1 0))
      (truthy (allBranches (heap s1 0)))) = Inl (NonZeroExit 128)"
    by (simp add: h1 a0)
  note t = getGitLog_never_raises [where execSync = sample_shell and date = ?d
      and ab = None and e = "NonZeroExit 128" and out = "[]" and r = 0]
  note t1 = t [where repoPath = "''/a''", THEN conjunct1, rule_format, OF a]
  note t2 = t [where repoPath = "''/c''", THEN conjunct2, THEN conjunct1, rule_format, OF c]
  note t3 = t [where h = sample_store and xs = "[]" and ys = "[Suc 0, 2]",
      THEN conjunct2, THEN conjunct2, THEN conjunct1, rule_format, OF a0]
  note t4 = t [where xs = "[2]" and ys = "[Suc 0]", THEN conjunct2, THEN conjunct2,
      THEN conjunct2, rule_format, OF d1 d2 p1 a1]
  from t3 have 3: "fst (gitLog_loop sample_shell ?d sample_store [0, Suc 0, 2] ([], [])) =
     formatBlock ''A'' False ''Error: Unable to retrieve git log.'' @
     formatBlock ''B'' False ''abc123 fix bug'' @
     formatBlock ''C'' False ''No commits found for the specified date.''"
    by (simp add: sample_store_simps truthy_def rest del: gitLog_loop.simps(2))
  from t4 have 4: "editor (fst (insertGitLog sample_shell (Some ?d) CloseDatePrompt ?es
       ClickInsert sample_state)) =
     [formatBlock ''C'' False ''No commits found for the specified date.'' @
      formatBlock ''A'' False ''Error: Unable to retrieve git log.'' @
      formatBlock ''B'' False ''abc123 fix bug''] \<and>
     notices (fst (insertGitLog sample_shell (Some ?d) CloseDatePrompt ?es
       ClickInsert sample_state)) = [] \<and>
     snd (insertGitLog sample_shell (Some ?d) CloseDatePrompt ?es ClickInsert sample_state) =
       Resolved ()"
    by (simp add: h1 sample_store_simps sample_state_simps truthy_def getGitLog_sample_b gc)
  from t1 t2 3 4 show ?thesis by simp
qed

end
